theory Spec2Isabelle
  imports Main "HOL-Library.Sublist"
begin

section \<open>Study helper: tasks, the task store and the focus-mode window controller\<close>

text \<open>
  The development follows \<^verbatim>\<open>main.py\<close>. Every reading of the wall clock
  (\<^verbatim>\<open>datetime.datetime.now()\<close>) is an argument of the function that reads it: a
  timestamp is an integer number of microseconds, the resolution of a Python
  \<^verbatim>\<open>datetime\<close>. Message boxes are values of the type \<open>notice\<close>; a function that
  shows one returns it, or appends it to the log \<open>shown\<close> of the window state.
\<close>

subsection \<open>Time\<close>

type_synonym timestamp = int

definition minute_us :: int where
  "minute_us = 60000000"

text \<open>\<^verbatim>\<open>strftime("%Y-%m-%d %H:%M:%S")\<close> keeps whole seconds only.\<close>

definition strftime_sec :: "timestamp \<Rightarrow> timestamp" where
  "strftime_sec t = t - t mod 1000000"

text \<open>
  \<^verbatim>\<open>f"{remaining:.1f}"\<close>: a duration in minutes printed with one decimal place.
  The argument is the duration in microseconds, the result the printed number in tenths
  of a minute (a tenth of a minute is 6000000 microseconds), rounded to the nearest
  tenth. The code rounds the float \<^verbatim>\<open>time_limit - used_time\<close>: where the duration is
  exactly halfway between two tenths (a remainder of 3 seconds), the error of that float
  decides the direction. The model does not follow the float there and sends a tie to the
  even neighbour; off the ties the two agree, and both stay within 0.05 minute.
\<close>

definition fmt_1f :: "int \<Rightarrow> int" where
  "fmt_1f us =
     (let q = us div 6000000; r = us mod 6000000
      in if 2 * r < 6000000 then q
         else if 2 * r > 6000000 then q + 1
         else if even q then q else q + 1)"

subsection \<open>Message boxes\<close>

datatype notice =
    ErrNotStarted                \<comment> \<open>showerror: the study-mode task has not been started\<close>
  | ErrTimeNotReached int int    \<comment> \<open>showerror: time limit (minutes), remaining (tenths of a minute, as printed)\<close>
  | ErrModeSwitchFailed          \<comment> \<open>showerror: cannot switch to normal mode\<close>
  | InfoStudyModeHint            \<comment> \<open>showinfo: new tasks will carry a time limit\<close>
  | ErrCloseForbidden            \<comment> \<open>showerror: closing is forbidden while the task runs\<close>
  | WarnCloseAttempts int        \<comment> \<open>showerror: n close attempts so far, full screen will be forced\<close>
  | InfoUnlocked                 \<comment> \<open>showinfo: full-screen mode unlocked\<close>
  | InfoStarted                  \<comment> \<open>showinfo: the task's timer has started\<close>
  | InfoCompleted                \<comment> \<open>showinfo: the task is marked completed\<close>
  | InfoDeleted                  \<comment> \<open>showinfo: the task is deleted\<close>
  | ErrFieldsEmpty               \<comment> \<open>showerror: subject, content and deadline must not be empty\<close>
  | ErrBadLimit                  \<comment> \<open>showerror: enter a positive whole number of minutes\<close>
  | ErrNoLimit                   \<comment> \<open>showerror: choose or enter a time limit\<close>
  | ErrBadDate                   \<comment> \<open>showerror: the date is not YYYY-MM-DD\<close>
  | InfoAdded                    \<comment> \<open>showinfo: the task is added\<close>

subsection \<open>class Task\<close>

record task =
  task_id :: string
  subject :: string
  content :: string
  deadline :: string
  priority :: int
  completed :: bool
  created_at :: timestamp
  completed_at :: "timestamp option"
  study_mode :: string
  time_limit :: int
  start_time :: "timestamp option"
  close_attempts :: int

text \<open>\<^verbatim>\<open>Task.__init__\<close>; the generated identifier and the clock are arguments.\<close>

definition new_task ::
  "string \<Rightarrow> timestamp \<Rightarrow> string \<Rightarrow> string \<Rightarrow> string \<Rightarrow> int \<Rightarrow> string \<Rightarrow> int \<Rightarrow> task" where
  "new_task fresh_id now subj cont dl prio smode lim =
     \<lparr> task_id = fresh_id, subject = subj, content = cont, deadline = dl,
       priority = max 1 (min 5 prio), completed = False,
       created_at = strftime_sec now, completed_at = None,
       study_mode = smode, time_limit = lim, start_time = None, close_attempts = 0 \<rparr>"

text \<open>\<^verbatim>\<open>Task.start_study_mode\<close>\<close>

definition start_study_mode :: "timestamp \<Rightarrow> task \<Rightarrow> task" where
  "start_study_mode now t =
     (if study_mode t = ''study_mode'' \<and> start_time t = None
      then t\<lparr>start_time := Some now\<rparr> else t)"

text \<open>
  \<^verbatim>\<open>Task.complete\<close>: the updated task, the returned flag and the message boxes shown.
  \<^verbatim>\<open>used_time < time_limit\<close> compares elapsed minutes with the limit; on microseconds
  that is \<open>now - s < time_limit * minute_us\<close>.
\<close>

definition complete :: "timestamp \<Rightarrow> task \<Rightarrow> task \<times> bool \<times> notice list" where
  "complete now t =
     (let finish = (if \<not> completed t
                    then t\<lparr>completed := True, completed_at := Some (strftime_sec now)\<rparr>
                    else t)
      in if study_mode t = ''study_mode'' \<and> time_limit t > 0 then
           (case start_time t of
              None \<Rightarrow> (t, False, [ErrNotStarted])
            | Some s \<Rightarrow>
                if now - s < time_limit t * minute_us
                then (t, False,
                      [ErrTimeNotReached (time_limit t) (fmt_1f (time_limit t * minute_us - (now - s)))])
                else (finish, True, []))
         else (finish, True, []))"

text \<open>\<^verbatim>\<open>Task.record_close_attempt\<close>\<close>

definition task_record_close_attempt :: "task \<Rightarrow> task \<times> int" where
  "task_record_close_attempt t = (t\<lparr>close_attempts := close_attempts t + 1\<rparr>, close_attempts t + 1)"

text \<open>
  \<^verbatim>\<open>Task.to_dict\<close> and \<^verbatim>\<open>Task.from_dict\<close>: the stored form of a task is the task with
  its start time cut to whole seconds.
\<close>

definition to_dict :: "task \<Rightarrow> task" where
  "to_dict t = t\<lparr>start_time := map_option strftime_sec (start_time t)\<rparr>"

definition from_dict :: "task \<Rightarrow> task" where
  "from_dict d = d"

subsection \<open>class StudyHelper\<close>

record study_helper =
  tasks :: "task list"
  tasks_file :: "task list"   \<comment> \<open>the content of tasks.json\<close>

definition save_tasks :: "study_helper \<Rightarrow> study_helper" where
  "save_tasks h = h\<lparr>tasks_file := map to_dict (tasks h)\<rparr>"

definition load_tasks :: "study_helper \<Rightarrow> study_helper" where
  "load_tasks h = h\<lparr>tasks := map from_dict (tasks_file h)\<rparr>"

definition add_task ::
  "string \<Rightarrow> timestamp \<Rightarrow> string \<Rightarrow> string \<Rightarrow> string \<Rightarrow> int \<Rightarrow> string \<Rightarrow> int \<Rightarrow> study_helper \<Rightarrow> study_helper" where
  "add_task fresh_id now subj cont dl prio smode lim h =
     save_tasks (h\<lparr>tasks := tasks h @ [new_task fresh_id now subj cont dl prio smode lim]\<rparr>)"

text \<open>
  The loops of \<^verbatim>\<open>StudyHelper\<close> walk the task list and return at the first task that
  passes the test; \<open>first_index\<close> is the position of that task.
\<close>

fun first_index :: "('a \<Rightarrow> bool) \<Rightarrow> 'a list \<Rightarrow> nat option" where
  "first_index P [] = None"
| "first_index P (x # xs) =
     (if P x then Some 0 else map_option Suc (first_index P xs))"

definition start_study_mode_task :: "string \<Rightarrow> timestamp \<Rightarrow> study_helper \<Rightarrow> study_helper \<times> bool" where
  "start_study_mode_task tid now h =
     (case first_index (\<lambda>t. task_id t = tid \<and> study_mode t = ''study_mode'' \<and> start_time t = None) (tasks h) of
        None \<Rightarrow> (h, False)
      | Some i \<Rightarrow> (save_tasks (h\<lparr>tasks := (tasks h)[i := start_study_mode now (tasks h ! i)]\<rparr>), True))"

definition complete_task :: "string \<Rightarrow> timestamp \<Rightarrow> study_helper \<Rightarrow> study_helper \<times> bool \<times> notice list" where
  "complete_task tid now h =
     (case first_index (\<lambda>t. task_id t = tid) (tasks h) of
        None \<Rightarrow> (h, False, [])
      | Some i \<Rightarrow>
          (case complete now (tasks h ! i) of
             (t', ok, msgs) \<Rightarrow>
               if ok then (save_tasks (h\<lparr>tasks := (tasks h)[i := t']\<rparr>), True, msgs)
               else (h\<lparr>tasks := (tasks h)[i := t']\<rparr>, False, msgs)))"

definition record_close_attempt :: "string \<Rightarrow> study_helper \<Rightarrow> study_helper \<times> int" where
  "record_close_attempt tid h =
     (case first_index (\<lambda>t. task_id t = tid) (tasks h) of
        None \<Rightarrow> (h, 0)
      | Some i \<Rightarrow>
          (case task_record_close_attempt (tasks h ! i) of
             (t', attempts) \<Rightarrow> (save_tasks (h\<lparr>tasks := (tasks h)[i := t']\<rparr>), attempts)))"

definition get_pending_tasks :: "study_helper \<Rightarrow> task list" where
  "get_pending_tasks h = filter (\<lambda>t. \<not> completed t) (tasks h)"

definition get_completed_tasks :: "study_helper \<Rightarrow> task list" where
  "get_completed_tasks h = filter completed (tasks h)"

definition delete_task :: "string \<Rightarrow> study_helper \<Rightarrow> study_helper \<times> bool" where
  "delete_task tid h =
     (let h' = h\<lparr>tasks := filter (\<lambda>t. task_id t \<noteq> tid) (tasks h)\<rparr>
      in if length (tasks h') < length (tasks h) then (save_tasks h', True) else (h', False))"

subsection \<open>class StudyHelperGUI: the window state\<close>

datatype status_text =
    StatusEmpty
  | StatusRemaining string int int   \<comment> \<open>subject, minutes and seconds left\<close>
  | StatusReached string             \<comment> \<open>subject; the time is reached, the task may be completed\<close>

datatype lock_text =
    LockEmpty
  | LockRunning    \<comment> \<open>study mode is running, the window cannot be closed\<close>
  | LockForced     \<comment> \<open>forced full screen: complete the task or enter the password\<close>

datatype error_text =
    ErrorEmpty
  | ErrorWrong int   \<comment> \<open>wrong password, n tries left\<close>
  | ErrorTooMany     \<comment> \<open>too many wrong passwords, the window stays locked\<close>

text \<open>Callbacks handed to \<^verbatim>\<open>root.after\<close>, with what their closure captures.\<close>

datatype callback =
    UpdateCountdown string string timestamp   \<comment> \<open>task id, subject, end time\<close>
  | ResetUnlockDialog

text \<open>
  The unlock dialog: whether the window still exists (\<^verbatim>\<open>winfo_exists\<close>), and the state
  of its entry and its button (normal or disabled).
\<close>

record dialog =
  winfo_exists :: bool
  inputs_enabled :: bool

record gui =
  helper :: study_helper
  current_mode :: string
  running_study_task_id :: "string option"
  countdown_label :: bool
  study_mode_status :: status_text
  lock_label :: lock_text
  original_geometry :: string
  is_fullscreen :: bool
  win_geometry :: string      \<comment> \<open>the last geometry given to \<^verbatim>\<open>root.geometry(...)\<close>\<close>
  win_fullscreen :: bool      \<comment> \<open>the window attribute \<^verbatim>\<open>-fullscreen\<close>\<close>
  win_topmost :: bool         \<comment> \<open>the window attribute \<^verbatim>\<open>-topmost\<close>\<close>
  win_destroyed :: bool
  unlock_password :: string
  unlock_dialog :: "dialog option"
  wrong_attempts :: int
  password_var :: string
  error_label :: error_text
  scheduled :: "(nat \<times> callback) list"   \<comment> \<open>\<^verbatim>\<open>root.after(ms, callback)\<close>, oldest first\<close>
  shown :: "notice list"

text \<open>\<^verbatim>\<open>StudyHelperGUI.__init__\<close>, as far as the controller goes.\<close>

definition init_gui :: "study_helper \<Rightarrow> gui" where
  "init_gui h =
     \<lparr> helper = h, current_mode = ''normal'', running_study_task_id = None,
       countdown_label = False, study_mode_status = StatusEmpty, lock_label = LockEmpty,
       original_geometry = ''1400x750'', is_fullscreen = False,
       win_geometry = ''1400x750'', win_fullscreen = False, win_topmost = False,
       win_destroyed = False, unlock_password = ''123456'', unlock_dialog = None,
       wrong_attempts = 0, password_var = [], error_label = ErrorEmpty,
       scheduled = [], shown = [] \<rparr>"

text \<open>Python's truth value of \<^verbatim>\<open>self.running_study_task_id\<close>: neither None nor empty.\<close>

definition running_id :: "gui \<Rightarrow> string option" where
  "running_id g =
     (case running_study_task_id g of
        None \<Rightarrow> None
      | Some tid \<Rightarrow> if tid = [] then None else Some tid)"

text \<open>
  \<^verbatim>\<open>hasattr(self, 'unlock_dialog') and self.unlock_dialog and self.unlock_dialog.winfo_exists()\<close>
\<close>

definition dialog_live :: "gui \<Rightarrow> bool" where
  "dialog_live g = (case unlock_dialog g of None \<Rightarrow> False | Some d \<Rightarrow> winfo_exists d)"

definition notify :: "notice list \<Rightarrow> gui \<Rightarrow> gui" where
  "notify ns g = g\<lparr>shown := shown g @ ns\<rparr>"

subsection \<open>Full screen and the unlock dialog\<close>

definition show_unlock_dialog :: "gui \<Rightarrow> gui" where
  "show_unlock_dialog g =
     (if dialog_live g then g
      else g\<lparr>unlock_dialog := Some \<lparr>winfo_exists = True, inputs_enabled = True\<rparr>,
             wrong_attempts := 0, password_var := [], error_label := ErrorEmpty\<rparr>)"

text \<open>
  \<^verbatim>\<open>enter_fullscreen\<close>; \<open>root_geometry\<close> is what \<^verbatim>\<open>self.root.geometry()\<close> returns at the
  call, the geometry of the window as it is on the screen then.
\<close>

definition enter_fullscreen :: "string \<Rightarrow> gui \<Rightarrow> gui" where
  "enter_fullscreen root_geometry g =
     show_unlock_dialog
       (g\<lparr>original_geometry := root_geometry, win_fullscreen := True, win_topmost := True,
          is_fullscreen := True, lock_label := LockForced\<rparr>)"

definition exit_fullscreen :: "gui \<Rightarrow> gui" where
  "exit_fullscreen g =
     (let g' = g\<lparr>win_fullscreen := False, win_topmost := False,
                 win_geometry := original_geometry g, is_fullscreen := False\<rparr>
      in if dialog_live g' then g'\<lparr>unlock_dialog := None\<rparr> else g')"

definition disable_inputs :: "gui \<Rightarrow> gui" where
  "disable_inputs g = g\<lparr>unlock_dialog := map_option (\<lambda>d. d\<lparr>inputs_enabled := False\<rparr>) (unlock_dialog g)\<rparr>"

definition enable_inputs :: "gui \<Rightarrow> gui" where
  "enable_inputs g = g\<lparr>unlock_dialog := map_option (\<lambda>d. d\<lparr>inputs_enabled := True\<rparr>) (unlock_dialog g)\<rparr>"

definition check_password :: "gui \<Rightarrow> gui" where
  "check_password g =
     (if password_var g = unlock_password g then notify [InfoUnlocked] (exit_fullscreen g)
      else
        (let w = wrong_attempts g + 1; remaining = 3 - w
         in if remaining > 0
            then g\<lparr>wrong_attempts := w, error_label := ErrorWrong remaining, password_var := []\<rparr>
            else (disable_inputs (g\<lparr>wrong_attempts := w, error_label := ErrorTooMany\<rparr>))
                   \<lparr>scheduled := scheduled g @ [(5000, ResetUnlockDialog)]\<rparr>))"

definition reset_unlock_dialog :: "gui \<Rightarrow> gui" where
  "reset_unlock_dialog g =
     (if dialog_live g
      then enable_inputs (g\<lparr>password_var := [], error_label := ErrorEmpty, wrong_attempts := 0\<rparr>)
      else g)"

text \<open>
  What reaches \<^verbatim>\<open>check_password\<close>: the button of the dialog (\<^verbatim>\<open>command=self.check_password\<close>,
  dead while the button is disabled) and the Return key, bound on the dialog window itself
  (\<^verbatim>\<open>self.unlock_dialog.bind('<Return>', ...)\<close>). The entry takes text only while it is
  enabled. Closing the dialog with the window manager destroys it; the attribute keeps the
  reference.
\<close>

definition click_unlock_button :: "gui \<Rightarrow> gui" where
  "click_unlock_button g =
     (case unlock_dialog g of
        None \<Rightarrow> g
      | Some d \<Rightarrow> if winfo_exists d \<and> inputs_enabled d then check_password g else g)"

definition press_return :: "gui \<Rightarrow> gui" where
  "press_return g = (if dialog_live g then check_password g else g)"

definition type_password :: "string \<Rightarrow> gui \<Rightarrow> gui" where
  "type_password s g =
     (case unlock_dialog g of
        None \<Rightarrow> g
      | Some d \<Rightarrow> if winfo_exists d \<and> inputs_enabled d then g\<lparr>password_var := s\<rparr> else g)"

definition close_unlock_dialog :: "gui \<Rightarrow> gui" where
  "close_unlock_dialog g = g\<lparr>unlock_dialog := map_option (\<lambda>d. d\<lparr>winfo_exists := False\<rparr>) (unlock_dialog g)\<rparr>"

subsection \<open>Countdown and mode switch\<close>

text \<open>
  An event handler may read the clock several times; \<open>clk k\<close> is the reading at the
  k-th reading site of the handler.
\<close>

type_synonym clock = "nat \<Rightarrow> timestamp"

text \<open>\<^verbatim>\<open>update_countdown\<close>, the closure of \<^verbatim>\<open>start_countdown\<close>; \<^verbatim>\<open>remaining.seconds\<close> leaves the days out.\<close>

definition update_countdown :: "string \<Rightarrow> string \<Rightarrow> timestamp \<Rightarrow> timestamp \<Rightarrow> gui \<Rightarrow> gui" where
  "update_countdown tid subj end_time now g =
     (if current_mode g \<noteq> ''study_mode'' \<or> running_study_task_id g \<noteq> Some tid then g
      else if now < end_time then
        (let secs = ((end_time - now) div 1000000) mod 86400
         in g\<lparr>study_mode_status := StatusRemaining subj (secs div 60) (secs mod 60),
              scheduled := scheduled g @ [(1000, UpdateCountdown tid subj end_time)]\<rparr>)
      else g\<lparr>study_mode_status := StatusReached subj\<rparr>)"

text \<open>
  \<^verbatim>\<open>start_countdown(task)\<close>; the task object is the one at position \<open>i\<close> of the task
  list. Clock readings: 1 inside \<^verbatim>\<open>Task.start_study_mode\<close>, 2 the assignment to
  \<^verbatim>\<open>task.start_time\<close>, 3 inside \<^verbatim>\<open>update_countdown\<close>.
\<close>

definition set_start_time :: "nat \<Rightarrow> timestamp \<Rightarrow> study_helper \<Rightarrow> study_helper" where
  "set_start_time i now h = h\<lparr>tasks := (tasks h)[i := (tasks h ! i)\<lparr>start_time := Some now\<rparr>]\<rparr>"

definition start_countdown :: "nat \<Rightarrow> clock \<Rightarrow> gui \<Rightarrow> gui" where
  "start_countdown i clk g =
     (let t = tasks (helper g) ! i
      in case start_time t of
           None \<Rightarrow>
             (let h1 = fst (start_study_mode_task (task_id t) (clk 1) (helper g));
                  h2 = set_start_time i (clk 2) h1
              in update_countdown (task_id t) (subject t) (clk 2 + time_limit t * minute_us) (clk 3)
                   (g\<lparr>helper := h2\<rparr>))
         | Some s \<Rightarrow>
             update_countdown (task_id t) (subject t) (s + time_limit t * minute_us) (clk 3) g)"

text \<open>
  The guard of \<^verbatim>\<open>switch_mode\<close>: a running task that is started and whose elapsed time
  is below its limit.
\<close>

definition switch_blocked :: "timestamp \<Rightarrow> gui \<Rightarrow> bool" where
  "switch_blocked now g =
     (case running_id g of
        None \<Rightarrow> False
      | Some rid \<Rightarrow>
          (case find (\<lambda>t. task_id t = rid) (tasks (helper g)) of
             None \<Rightarrow> False
           | Some t \<Rightarrow>
               (case start_time t of
                  None \<Rightarrow> False
                | Some s \<Rightarrow> now - s < time_limit t * minute_us)))"

definition leave_session :: "gui \<Rightarrow> gui" where
  "leave_session g =
     (let g' = g\<lparr>running_study_task_id := None, countdown_label := False,
                 study_mode_status := StatusEmpty, lock_label := LockEmpty\<rparr>
      in if is_fullscreen g' then exit_fullscreen g' else g')"

text \<open>
  \<^verbatim>\<open>switch_mode\<close>, called when a mode radio button has set \<^verbatim>\<open>current_mode\<close>. Clock
  reading 0 is the one of the guard. \<^verbatim>\<open>refresh_task_lists\<close> redraws the two tables from
  the task list and changes nothing else.
\<close>

definition switch_mode :: "clock \<Rightarrow> gui \<Rightarrow> gui" where
  "switch_mode clk g =
     (let new_mode = current_mode g
      in if new_mode = ''normal'' \<and> switch_blocked (clk 0) g
         then (notify [ErrModeSwitchFailed] g)\<lparr>current_mode := ''study_mode''\<rparr>
         else if new_mode = ''study_mode'' then
           (case first_index (\<lambda>t. \<not> completed t \<and> study_mode t = ''study_mode'') (tasks (helper g)) of
              Some i \<Rightarrow>
                (start_countdown i clk
                   (g\<lparr>running_study_task_id := Some (task_id (tasks (helper g) ! i))\<rparr>))
                \<lparr>lock_label := LockRunning\<rparr>
            | None \<Rightarrow> (notify [InfoStudyModeHint] g)\<lparr>lock_label := LockEmpty\<rparr>)
         else leave_session g)"

definition select_mode :: "string \<Rightarrow> clock \<Rightarrow> gui \<Rightarrow> gui" where
  "select_mode m clk g = switch_mode clk (g\<lparr>current_mode := m\<rparr>)"

subsection \<open>Closing the window\<close>

text \<open>
  \<^verbatim>\<open>handle_close\<close>; \<open>root_geometry\<close> as in \<open>enter_fullscreen\<close>, \<open>confirm\<close> the answer
  to the question asked in normal mode.
\<close>

definition handle_close :: "string \<Rightarrow> bool \<Rightarrow> gui \<Rightarrow> gui" where
  "handle_close root_geometry confirm g =
     (case running_id g of
        Some rid \<Rightarrow>
          if current_mode g = ''study_mode'' then
            (case record_close_attempt rid (helper g) of
               (h', attempts) \<Rightarrow>
                 if attempts \<le> 1 then notify [ErrCloseForbidden] (g\<lparr>helper := h'\<rparr>)
                 else
                   (let g' = notify [WarnCloseAttempts attempts] (g\<lparr>helper := h'\<rparr>)
                    in if attempts \<ge> 3 then enter_fullscreen root_geometry g' else g'))
          else if confirm then g\<lparr>win_destroyed := True\<rparr> else g
      | None \<Rightarrow> if confirm then g\<lparr>win_destroyed := True\<rparr> else g)"

subsection \<open>The action column of the task tables\<close>

text \<open>
  \<^verbatim>\<open>on_task_select\<close>: \<open>sel\<close> is the short id shown in the selected row (None when nothing
  is selected), \<open>col7\<close> whether the pointer is over the action column, \<open>click_x\<close> the pointer
  position, \<open>x\<close> and \<open>width\<close> the cell's box, \<open>confirm\<close> the answer to the delete question.
  \<^verbatim>\<open>click_x < x + width/3\<close> is \<open>3 * (click_x - x) < width\<close>. Clock reading 0 is the one
  of the helper call.
\<close>

definition on_task_select ::
  "string option \<Rightarrow> bool \<Rightarrow> int \<Rightarrow> int \<Rightarrow> int \<Rightarrow> bool \<Rightarrow> clock \<Rightarrow> gui \<Rightarrow> gui" where
  "on_task_select sel col7 click_x x width confirm clk g =
     (case sel of
        None \<Rightarrow> g
      | Some short_id \<Rightarrow>
          (case find (\<lambda>t. suffix short_id (task_id t)) (tasks (helper g)) of
             None \<Rightarrow> g
           | Some ft \<Rightarrow>
               (let full_id = task_id ft
                in if full_id = [] \<or> \<not> col7 then g
                   else
                     (case first_index (\<lambda>t. task_id t = full_id) (tasks (helper g)) of
                        None \<Rightarrow> g
                      | Some i \<Rightarrow>
                          if study_mode (tasks (helper g) ! i) = ''study_mode'' then
                            if 3 * (click_x - x) < width then
                              notify [InfoStarted]
                                ((start_countdown i clk
                                    (g\<lparr>helper := fst (start_study_mode_task full_id (clk 0) (helper g)),
                                       running_study_task_id := Some full_id\<rparr>))
                                 \<lparr>lock_label := LockRunning\<rparr>)
                            else if 3 * (click_x - x) < 2 * width then
                              (case complete_task full_id (clk 0) (helper g) of
                                 (h', ok, msgs) \<Rightarrow>
                                   if ok
                                   then (let g' = (notify (msgs @ [InfoCompleted]) (g\<lparr>helper := h'\<rparr>))
                                                    \<lparr>running_study_task_id := None,
                                                     study_mode_status := StatusEmpty,
                                                     lock_label := LockEmpty\<rparr>
                                         in if is_fullscreen g' then exit_fullscreen g' else g')
                                   else notify msgs (g\<lparr>helper := h'\<rparr>))
                            else if confirm then
                              (let g' = g\<lparr>helper := fst (delete_task full_id (helper g)),
                                          running_study_task_id := None,
                                          study_mode_status := StatusEmpty,
                                          lock_label := LockEmpty\<rparr>;
                                   g'' = (if is_fullscreen g' then exit_fullscreen g' else g')
                               in notify [InfoDeleted] g'')
                            else g
                          else
                            if 2 * (click_x - x) < width then
                              (case complete_task full_id (clk 0) (helper g) of
                                 (h', ok, msgs) \<Rightarrow>
                                   if ok then notify (msgs @ [InfoCompleted]) (g\<lparr>helper := h'\<rparr>)
                                   else notify msgs (g\<lparr>helper := h'\<rparr>))
                            else if confirm then
                              notify [InfoDeleted] (g\<lparr>helper := fst (delete_task full_id (helper g))\<rparr>)
                            else g))))"

text \<open>A due \<^verbatim>\<open>root.after\<close> callback runs: the \<open>k\<close>-th pending one, at clock reading 3.\<close>

definition run_callback :: "callback \<Rightarrow> clock \<Rightarrow> gui \<Rightarrow> gui" where
  "run_callback cb clk g =
     (case cb of
        UpdateCountdown tid subj end_time \<Rightarrow> update_countdown tid subj end_time (clk 3) g
      | ResetUnlockDialog \<Rightarrow> reset_unlock_dialog g)"

definition fire :: "nat \<Rightarrow> clock \<Rightarrow> gui \<Rightarrow> gui" where
  "fire k clk g =
     (if k < length (scheduled g)
      then run_callback (snd (scheduled g ! k)) clk
             (g\<lparr>scheduled := take k (scheduled g) @ drop (Suc k) (scheduled g)\<rparr>)
      else g)"

subsection \<open>Adding a task, starting the program again, and all events\<close>

text \<open>
  \<^verbatim>\<open>save_task\<close> of the add-task dialog, on the parsed form: \<open>manual\<close> is the number
  typed as time limit (None when the field is empty), \<open>combo\<close> the one chosen in the
  list, \<open>date_ok\<close> whether the deadline parses as a date. The new task takes the
  current mode as its mode.
\<close>

definition save_task ::
  "string \<Rightarrow> timestamp \<Rightarrow> string \<Rightarrow> string \<Rightarrow> string \<Rightarrow> int \<Rightarrow> int option \<Rightarrow> int option \<Rightarrow> bool
     \<Rightarrow> gui \<Rightarrow> gui" where
  "save_task fresh_id now subj cont dl prio manual combo date_ok g =
     (if subj = [] \<or> cont = [] \<or> dl = [] then notify [ErrFieldsEmpty] g
      else
        (case (if current_mode g = ''study_mode''
               then (case manual of
                       Some n \<Rightarrow> if n \<le> 0 then Inl ErrBadLimit else Inr n
                     | None \<Rightarrow> (case combo of Some n \<Rightarrow> Inr n | None \<Rightarrow> Inl ErrNoLimit))
               else Inr 0) of
           Inl e \<Rightarrow> notify [e] g
         | Inr lim \<Rightarrow>
             if date_ok
             then notify [InfoAdded]
                    (g\<lparr>helper := add_task fresh_id now subj cont dl prio (current_mode g) lim (helper g)\<rparr>)
             else notify [ErrBadDate] g))"

text \<open>The program is started again: the window is new, the tasks are read from the file.\<close>

definition restart :: "gui \<Rightarrow> gui" where
  "restart g = init_gui (load_tasks (helper g))"

datatype event =
    SelectMode string clock
  | HandleClose string bool
  | OnTaskSelect "string option" bool int int int bool clock
  | ClickUnlockButton
  | PressReturn
  | TypePassword string
  | CloseUnlockDialog
  | Fire nat clock
  | SaveTask string timestamp string string string int "int option" "int option" bool
  | Restart

fun step :: "event \<Rightarrow> gui \<Rightarrow> gui" where
  "step (SelectMode m clk) g = select_mode m clk g"
| "step (HandleClose geo confirm) g = handle_close geo confirm g"
| "step (OnTaskSelect sel col7 click_x x width confirm clk) g =
     on_task_select sel col7 click_x x width confirm clk g"
| "step ClickUnlockButton g = click_unlock_button g"
| "step PressReturn g = press_return g"
| "step (TypePassword s) g = type_password s g"
| "step CloseUnlockDialog g = close_unlock_dialog g"
| "step (Fire k clk) g = fire k clk g"
| "step (SaveTask fresh_id now subj cont dl prio manual combo date_ok) g =
     save_task fresh_id now subj cont dl prio manual combo date_ok g"
| "step Restart g = restart g"

text \<open>The methods of the store, called directly.\<close>

datatype store_op =
    AddTask string timestamp string string string int string int
  | StartTask string timestamp
  | CompleteTask string timestamp
  | RecordClose string
  | DeleteTask string
  | LoadTasks

fun run_op :: "store_op \<Rightarrow> study_helper \<Rightarrow> study_helper" where
  "run_op (AddTask fresh_id now subj cont dl prio smode lim) h =
     add_task fresh_id now subj cont dl prio smode lim h"
| "run_op (StartTask tid now) h = fst (start_study_mode_task tid now h)"
| "run_op (CompleteTask tid now) h = fst (complete_task tid now h)"
| "run_op (RecordClose tid) h = fst (record_close_attempt tid h)"
| "run_op (DeleteTask tid) h = fst (delete_task tid h)"
| "run_op LoadTasks h = load_tasks h"

subsection \<open>The close-attempt counters across a step\<close>

text \<open>
  \<open>attempts_mono\<close>: every task of the old list is at its position in the new list, with
  its id and a counter that is not smaller. \<open>in_sync\<close>: the file lists the same ids and
  counters as the task list. \<open>attempts_preserved\<close>: when the store was in sync, it is in
  sync again, and either no counter went down or the new list is the old one without the
  tasks of one id.
\<close>

definition attempts_mono :: "task list \<Rightarrow> task list \<Rightarrow> bool" where
  "attempts_mono ts ts' \<longleftrightarrow>
     length ts \<le> length ts' \<and>
     (\<forall>i<length ts. task_id (ts' ! i) = task_id (ts ! i)
                      \<and> close_attempts (ts ! i) \<le> close_attempts (ts' ! i))"

definition in_sync :: "study_helper \<Rightarrow> bool" where
  "in_sync h \<longleftrightarrow>
     map task_id (tasks_file h) = map task_id (tasks h) \<and>
     map close_attempts (tasks_file h) = map close_attempts (tasks h)"

definition attempts_preserved :: "study_helper \<Rightarrow> study_helper \<Rightarrow> bool" where
  "attempts_preserved h h' \<longleftrightarrow>
     (in_sync h \<longrightarrow>
        in_sync h' \<and>
        (attempts_mono (tasks h) (tasks h')
         \<or> (\<exists>tid. tasks h' = filter (\<lambda>t. task_id t \<noteq> tid) (tasks h))))"

text \<open>A clock that reads 5 seconds and 100 microseconds more at each reading site.\<close>

definition example_clock :: clock where
  "example_clock k = 5000000 + 100 * int k"

text \<open>A step of the store that deletes nothing.\<close>

definition good_step :: "study_helper \<Rightarrow> study_helper \<Rightarrow> bool" where
  "good_step h h' \<longleftrightarrow> (in_sync h \<longrightarrow> in_sync h' \<and> attempts_mono (tasks h) (tasks h'))"

subsection \<open>Example data\<close>

text \<open>A study-mode task with the given time limit, started at \<open>s\<close>, and a store holding tasks.\<close>

definition example_task :: "string \<Rightarrow> int \<Rightarrow> task" where
  "example_task tid lim = new_task tid 0 ''math'' ''exercises'' ''2030-01-01'' 3 ''study_mode'' lim"

definition started_task :: "string \<Rightarrow> int \<Rightarrow> timestamp \<Rightarrow> task" where
  "started_task tid lim s = start_study_mode s (example_task tid lim)"

definition store_of :: "task list \<Rightarrow> study_helper" where
  "store_of ts = save_tasks \<lparr>tasks = ts, tasks_file = []\<rparr>"

text \<open>A window in study mode whose running task is the one with the given id.\<close>

definition example_session :: "string \<Rightarrow> study_helper \<Rightarrow> gui" where
  "example_session tid h =
     (init_gui h)\<lparr>current_mode := ''study_mode'', running_study_task_id := Some tid,
                 lock_label := LockRunning\<rparr>"

text \<open>A submission to the unlock dialog: the text is typed, then Return is pressed or the button clicked.\<close>

definition submit_return :: "string \<Rightarrow> gui \<Rightarrow> gui" where
  "submit_return s g = press_return (type_password s g)"

definition submit_click :: "string \<Rightarrow> gui \<Rightarrow> gui" where
  "submit_click s g = click_unlock_button (type_password s g)"

text \<open>The example session after its window has been forced to full screen.\<close>

definition locked_session :: gui where
  "locked_session =
     enter_fullscreen ''1400x750+10+10''
       (example_session ''task_1'' (store_of [started_task ''task_1'' 30 0]))"

text \<open>The store after a close attempt has been recorded on the task at position \<open>i\<close>.\<close>

definition bump_attempts :: "nat \<Rightarrow> study_helper \<Rightarrow> study_helper" where
  "bump_attempts i h =
     save_tasks (h\<lparr>tasks := (tasks h)[i := (tasks h ! i)\<lparr>close_attempts := close_attempts (tasks h ! i) + 1\<rparr>]\<rparr>)"

subsection \<open>Facts about the task list\<close>

lemma first_index_SomeD:
  "first_index P xs = Some i \<Longrightarrow> i < length xs \<and> P (xs ! i) \<and> (\<forall>j<i. \<not> P (xs ! j))"
proof (induction xs arbitrary: i)
  case Nil
  then show ?case by simp
next
  case (Cons x xs)
  show ?case
  proof (cases "P x")
    case True
    with Cons.prems show ?thesis by simp
  next
    case False
    with Cons.prems obtain k where k: "first_index P xs = Some k" "i = Suc k"
      by auto
    from Cons.IH [OF k(1)] False k(2) show ?thesis
      by (auto simp: less_Suc_eq_0_disj)
  qed
qed

lemma first_index_None: "first_index P xs = None \<longleftrightarrow> (\<forall>x\<in>set xs. \<not> P x)"
  by (induction xs) auto

lemma started_task_fields:
  "task_id (started_task tid lim s) = tid"
  "study_mode (started_task tid lim s) = ''study_mode''"
  "time_limit (started_task tid lim s) = lim"
  "start_time (started_task tid lim s) = Some s"
  "completed (started_task tid lim s) = False"
  "close_attempts (started_task tid lim s) = 0"
  by (simp_all add: started_task_def example_task_def new_task_def start_study_mode_def)

lemma store_of_tasks: "tasks (store_of ts) = ts"
  by (simp add: store_of_def save_tasks_def)

lemma map_from_dict: "map from_dict xs = xs"
  by (induction xs) (simp_all add: from_dict_def)


subsection \<open>Completing a task\<close>

lemma fmt_1f_close: "\<bar>fmt_1f us * 6000000 - us\<bar> \<le> 3000000"
proof -
  define q where "q = us div 6000000"
  define r where "r = us mod 6000000"
  have us: "us = 6000000 * q + r" and r: "0 \<le> r" "r < 6000000"
    by (simp_all add: q_def r_def)
  have "fmt_1f us = q \<and> 2 * r \<le> 6000000 \<or> fmt_1f us = q + 1 \<and> 6000000 \<le> 2 * r"
    unfolding fmt_1f_def Let_def q_def [symmetric] r_def [symmetric] by auto
  with us r show ?thesis by auto
qed

lemma complete_started:
  assumes "study_mode t = ''study_mode''" "0 < time_limit t" "start_time t = Some s"
  shows "complete now t =
           (if now - s < time_limit t * minute_us
            then (t, False,
                  [ErrTimeNotReached (time_limit t) (fmt_1f (time_limit t * minute_us - (now - s)))])
            else (if completed t then t
                  else t\<lparr>completed := True, completed_at := Some (strftime_sec now)\<rparr>, True, []))"
  using assms by (simp add: complete_def)

lemma complete_task_at:
  assumes "first_index (\<lambda>u. task_id u = tid) (tasks h) = Some i"
  shows "complete_task tid now h =
           (case complete now (tasks h ! i) of
              (t', ok, msgs) \<Rightarrow>
                if ok then (save_tasks (h\<lparr>tasks := (tasks h)[i := t']\<rparr>), True, msgs)
                else (h\<lparr>tasks := (tasks h)[i := t']\<rparr>, False, msgs))"
  using assms by (simp add: complete_task_def)

text \<open>
  Claim C1, as the code has it. For a started study-mode task \<open>t\<close> with a positive time
  limit, the task that \<open>complete_task\<close> finds for the id: completion succeeds exactly
  when the elapsed time has reached the limit, and then the task is marked completed.
  When it is refused, the call returns False, the task and the whole store (task list
  and file) are unchanged, and one error box is shown that prints the remaining time
  with one decimal place of a minute: the printed figure is within 0.05 minute
  (3000000 microseconds) of the remaining time, not the remaining time itself.
\<close>

theorem complete_guard_rounded:
  assumes sm: "study_mode t = ''study_mode''" and lim: "0 < time_limit t"
    and st: "start_time t = Some s"
    and idx: "first_index (\<lambda>u. task_id u = tid) (tasks h) = Some i" and ti: "tasks h ! i = t"
  shows "(fst (snd (complete now t)) \<longleftrightarrow> time_limit t * minute_us \<le> now - s)
       \<and> (fst (snd (complete_task tid now h)) \<longleftrightarrow> time_limit t * minute_us \<le> now - s)
       \<and> (time_limit t * minute_us \<le> now - s \<longrightarrow>
            completed (fst (complete now t)) \<and> completed (tasks (fst (complete_task tid now h)) ! i))
       \<and> (now - s < time_limit t * minute_us \<longrightarrow>
            (\<exists>r. snd (snd (complete_task tid now h)) = [ErrTimeNotReached (time_limit t) r]
               \<and> \<bar>r * 6000000 - (time_limit t * minute_us - (now - s))\<bar> \<le> 3000000)
            \<and> fst (complete now t) = t \<and> fst (complete_task tid now h) = h)"
proof -
  note c = complete_started [OF sm lim st, of now]
  note ct = complete_task_at [OF idx, of now, unfolded ti]
  from first_index_SomeD [OF idx] have i: "i < length (tasks h)" by simp
  show ?thesis
  proof (cases "now - s < time_limit t * minute_us")
    case True
    have upd: "(tasks h)[i := t] = tasks h" using ti by (metis list_update_id)
    from True show ?thesis
      by (simp add: c ct upd fmt_1f_close)
  next
    case False
    with i show ?thesis
      by (simp add: c ct save_tasks_def)
  qed
qed

text \<open>
  Scenario A: a limit of 30 minutes, started at 0. After 29 minutes the completion is
  refused, the store is unchanged and the box prints 1.0 minute; after 30 minutes it
  succeeds.
\<close>

theorem complete_guard_rounded_witness:
  "complete_task ''task_1'' 1740000000 (store_of [started_task ''task_1'' 30 0])
     = (store_of [started_task ''task_1'' 30 0], False, [ErrTimeNotReached 30 10])
   \<and> fst (snd (complete_task ''task_1'' 1800000000 (store_of [started_task ''task_1'' 30 0])))
   \<and> completed (fst (complete 1800000000 (started_task ''task_1'' 30 0)))"
proof -
  let ?t = "started_task ''task_1'' 30 0"
  let ?h = "store_of [?t]"
  have sm: "study_mode ?t = ''study_mode''" and lim: "0 < time_limit ?t"
    and st: "start_time ?t = Some 0"
    by (simp_all add: started_task_fields)
  have idx: "first_index (\<lambda>u. task_id u = ''task_1'') (tasks ?h) = Some 0"
    by (simp add: store_of_tasks started_task_fields)
  have ti: "tasks ?h ! 0 = ?t"
    by (simp add: store_of_tasks)
  have early: "(1740000000::int) - 0 < time_limit ?t * minute_us"
    and late: "time_limit ?t * minute_us \<le> (1800000000::int) - 0"
    by (simp_all add: started_task_fields minute_us_def)
  have msg: "snd (snd (complete_task ''task_1'' 1740000000 ?h)) = [ErrTimeNotReached 30 10]"
    by (simp add: complete_task_at [OF idx] ti complete_started [OF sm lim st]
        started_task_fields minute_us_def fmt_1f_def)
  from complete_guard_rounded [OF sm lim st idx ti, of 1740000000] early
  have a: "fst (snd (complete_task ''task_1'' 1740000000 ?h)) = False"
    and b: "fst (complete_task ''task_1'' 1740000000 ?h) = ?h"
    by simp_all
  have refused: "complete_task ''task_1'' 1740000000 ?h = (?h, False, [ErrTimeNotReached 30 10])"
    by (rule prod_eqI, simp add: b, rule prod_eqI, simp add: a, simp add: msg)
  from complete_guard_rounded [OF sm lim st idx ti, of 1800000000] late
  have "fst (snd (complete_task ''task_1'' 1800000000 ?h))"
    and "completed (fst (complete 1800000000 ?t))"
    by simp_all
  with refused show ?thesis by simp
qed

text \<open>
  Claim C1 as stated asks for the exact remaining time. With a limit of 30 minutes, a
  completion attempted 2 seconds before the limit and one attempted 1 second before it
  are both answered with the same box, "0.0 minutes", while 2000000 and 1000000
  microseconds remain.
\<close>

theorem complete_report_not_exact:
  "snd (snd (complete 1798000000 (started_task ''task_1'' 30 0))) = [ErrTimeNotReached 30 0]
   \<and> snd (snd (complete 1799000000 (started_task ''task_1'' 30 0))) = [ErrTimeNotReached 30 0]
   \<and> time_limit (started_task ''task_1'' 30 0) * minute_us - (1798000000 - 0) = 2000000
   \<and> time_limit (started_task ''task_1'' 30 0) * minute_us - (1799000000 - 0) = 1000000"
  by (simp add: complete_started started_task_fields minute_us_def fmt_1f_def)

lemma complete_succeeded:
  assumes "complete now1 t = (t1, True, m1)"
  shows "completed t1"
    and "study_mode t1 = study_mode t" "time_limit t1 = time_limit t" "start_time t1 = start_time t"
    and "study_mode t = ''study_mode'' \<and> 0 < time_limit t \<longrightarrow>
           (\<exists>s. start_time t = Some s \<and> time_limit t * minute_us \<le> now1 - s)"
proof -
  let ?guard = "study_mode t = ''study_mode'' \<and> 0 < time_limit t"
  show "completed t1" "study_mode t1 = study_mode t" "time_limit t1 = time_limit t"
    "start_time t1 = start_time t"
    "?guard \<longrightarrow> (\<exists>s. start_time t = Some s \<and> time_limit t * minute_us \<le> now1 - s)"
  proof -
    consider (timed) s where "?guard" "start_time t = Some s" | (unstarted) "?guard" "start_time t = None"
      | (free) "\<not> ?guard"
      by (cases "start_time t") auto
    then have "completed t1 \<and> study_mode t1 = study_mode t \<and> time_limit t1 = time_limit t
        \<and> start_time t1 = start_time t
        \<and> (?guard \<longrightarrow> (\<exists>s. start_time t = Some s \<and> time_limit t * minute_us \<le> now1 - s))"
    proof cases
      case timed
      with assms show ?thesis
        by (cases "now1 - s < time_limit t * minute_us"; cases "completed t")
           (auto simp: complete_started [of t s now1])
    next
      case unstarted
      with assms show ?thesis by (simp add: complete_def)
    next
      case free
      with assms show ?thesis
        by (cases "completed t") (auto simp: complete_def)
    qed
    then show "completed t1" "study_mode t1 = study_mode t" "time_limit t1 = time_limit t"
      "start_time t1 = start_time t"
      "?guard \<longrightarrow> (\<exists>s. start_time t = Some s \<and> time_limit t * minute_us \<le> now1 - s)"
      by simp_all
  qed
qed

text \<open>
  Claim C10, as the code has it. \<open>complete\<close> tests the time limit against the clock
  before it looks at the completed flag. After a call that succeeded, a further call
  never changes the task, so the completed flag and the completion timestamp of the first
  success stay; it succeeds exactly when the time test passes at its own clock reading,
  which it does whenever that reading is not before the one of the first success.
\<close>

theorem complete_idempotent:
  assumes "complete now1 t = (t1, True, m1)"
  shows "completed t1
       \<and> fst (complete now2 t1) = t1
       \<and> completed (fst (complete now2 t1)) = completed t1
       \<and> completed_at (fst (complete now2 t1)) = completed_at t1
       \<and> (fst (snd (complete now2 t1)) \<longleftrightarrow>
             \<not> (study_mode t1 = ''study_mode'' \<and> 0 < time_limit t1
                \<and> (\<exists>s. start_time t1 = Some s \<and> now2 - s < time_limit t1 * minute_us)))
       \<and> (now1 \<le> now2 \<longrightarrow> complete now2 t1 = (t1, True, []))"
proof -
  note s = complete_succeeded [OF assms]
  show ?thesis
  proof (cases "study_mode t1 = ''study_mode'' \<and> 0 < time_limit t1")
    case True
    with s obtain st where st: "start_time t1 = Some st" "time_limit t1 * minute_us \<le> now1 - st"
      by auto
    from True st(1) s(1) have c: "complete now2 t1 =
        (if now2 - st < time_limit t1 * minute_us
         then (t1, False,
               [ErrTimeNotReached (time_limit t1) (fmt_1f (time_limit t1 * minute_us - (now2 - st)))])
         else (t1, True, []))"
      by (simp add: complete_started [of t1 st now2])
    from True st s(1) show ?thesis
      by (simp add: c)
  next
    case False
    with s(1) have c: "complete now2 t1 = (t1, True, [])"
      by (auto simp: complete_def)
    from False s(1) show ?thesis
      by (auto simp: c)
  qed
qed

lemma completed_example:
  "complete 1800000000 (started_task ''task_1'' 30 0)
     = ((started_task ''task_1'' 30 0)\<lparr>completed := True, completed_at := Some 1800000000\<rparr>, True, [])"
  by (simp add: complete_started started_task_fields minute_us_def strftime_sec_def)

text \<open>A task completed at its limit of 30 minutes and completed again later.\<close>

theorem complete_idempotent_witness:
  "complete 1900000000 (fst (complete 1800000000 (started_task ''task_1'' 30 0)))
     = (fst (complete 1800000000 (started_task ''task_1'' 30 0)), True, [])
   \<and> completed (fst (complete 1800000000 (started_task ''task_1'' 30 0)))
   \<and> completed_at (fst (complete 1800000000 (started_task ''task_1'' 30 0))) = Some 1800000000"
proof -
  let ?t = "started_task ''task_1'' 30 0"
  have first: "complete 1800000000 ?t = (fst (complete 1800000000 ?t), True, [])"
    and at: "completed_at (fst (complete 1800000000 ?t)) = Some 1800000000"
    by (simp_all add: completed_example)
  have le: "(1800000000::int) \<le> 1900000000" by simp
  from complete_idempotent [OF first, of 1900000000] le at show ?thesis by simp
qed

text \<open>
  Claim C10 as stated has every further call succeed. A task with a limit of 30 minutes,
  started at 0, is completed when the clock reads 30 minutes; the clock is then set back
  by a second, and the further call shows the time-not-reached box and returns False.
\<close>

theorem complete_again_clock_back:
  "fst (snd (complete 1800000000 (started_task ''task_1'' 30 0)))
   \<and> completed (fst (complete 1800000000 (started_task ''task_1'' 30 0)))
   \<and> snd (complete 1799000000 (fst (complete 1800000000 (started_task ''task_1'' 30 0))))
       = (False, [ErrTimeNotReached 30 0])"
  by (simp add: completed_example complete_started started_task_fields minute_us_def fmt_1f_def)

subsection \<open>Starting the timer\<close>

lemma example_task_fields:
  "task_id (example_task tid lim) = tid"
  "study_mode (example_task tid lim) = ''study_mode''"
  "time_limit (example_task tid lim) = lim"
  "start_time (example_task tid lim) = None"
  "completed (example_task tid lim) = False"
  "close_attempts (example_task tid lim) = 0"
  by (simp_all add: example_task_def new_task_def)

lemma start_study_mode_task_at:
  assumes "first_index (\<lambda>t. task_id t = tid \<and> study_mode t = ''study_mode'' \<and> start_time t = None) (tasks h) = Some i"
  shows "start_study_mode_task tid now h =
           (save_tasks (h\<lparr>tasks := (tasks h)[i := start_study_mode now (tasks h ! i)]\<rparr>), True)"
  using assms by (simp add: start_study_mode_task_def)

lemma start_study_mode_task_none:
  assumes "first_index (\<lambda>t. task_id t = tid \<and> study_mode t = ''study_mode'' \<and> start_time t = None) (tasks h) = None"
  shows "start_study_mode_task tid now h = (h, False)"
  using assms by (simp add: start_study_mode_task_def)

lemma start_study_mode_task_length:
  "length (tasks (fst (start_study_mode_task tid now h))) = length (tasks h)"
  by (simp add: start_study_mode_task_def save_tasks_def split: option.splits)

lemma start_study_mode_task_keeps:
  assumes "j < length (tasks h)" and "start_time (tasks h ! j) \<noteq> None"
  shows "tasks (fst (start_study_mode_task tid now h)) ! j = tasks h ! j"
proof (cases "first_index (\<lambda>t. task_id t = tid \<and> study_mode t = ''study_mode'' \<and> start_time t = None) (tasks h)")
  case None
  then show ?thesis by (simp add: start_study_mode_task_none)
next
  case (Some i)
  from first_index_SomeD [OF Some] assms have "i \<noteq> j" by auto
  then show ?thesis
    by (simp add: start_study_mode_task_at [OF Some] save_tasks_def)
qed

lemma helper_update_countdown [simp]:
  "helper (update_countdown tid subj end_time now g) = helper g"
  by (simp add: update_countdown_def Let_def)

lemma start_countdown_started:
  assumes "start_time (tasks (helper g) ! i) = Some s"
  shows "helper (start_countdown i clk g) = helper g"
  using assms by (simp add: start_countdown_def Let_def)

text \<open>
  Claim C7, as the code has it. \<open>start_study_mode\<close> sets the start time of a
  study-mode task that has none, and leaves a task whose start time is set as it is; a
  second start is therefore without effect. In the store, \<open>start_study_mode_task\<close>
  starts the first task of the id that is in study mode and not started: it returns True,
  the task has the clock reading as start time and the file has it cut to the second. It
  leaves every task that already has a start time untouched, and when every task of the
  id is started it returns False and the store as it was, raising nothing.
  \<open>start_countdown\<close> on a started task leaves the store alone as well.
\<close>

theorem start_idempotent:
  "(study_mode t = ''study_mode'' \<and> start_time t = None \<longrightarrow>
      start_time (start_study_mode now t) = Some now)
   \<and> (start_time t \<noteq> None \<longrightarrow> start_study_mode now' t = t)
   \<and> start_study_mode now' (start_study_mode now t) = start_study_mode now t
   \<and> length (tasks (fst (start_study_mode_task tid now h))) = length (tasks h)
   \<and> (\<forall>j<length (tasks h). start_time (tasks h ! j) \<noteq> None \<longrightarrow>
         tasks (fst (start_study_mode_task tid now h)) ! j = tasks h ! j)
   \<and> ((\<forall>u\<in>set (tasks h). task_id u = tid \<longrightarrow> start_time u \<noteq> None) \<longrightarrow>
         start_study_mode_task tid now h = (h, False))
   \<and> (start_time (tasks (helper g) ! i) \<noteq> None \<longrightarrow> helper (start_countdown i clk g) = helper g)
   \<and> (first_index (\<lambda>u. task_id u = tid \<and> study_mode u = ''study_mode'' \<and> start_time u = None)
         (tasks h) = Some k \<longrightarrow>
         snd (start_study_mode_task tid now h)
         \<and> start_time (tasks (fst (start_study_mode_task tid now h)) ! k) = Some now
         \<and> start_time (tasks_file (fst (start_study_mode_task tid now h)) ! k) = Some (strftime_sec now)
         \<and> (\<forall>j<length (tasks h). j \<noteq> k \<longrightarrow>
               tasks (fst (start_study_mode_task tid now h)) ! j = tasks h ! j))"
proof -
  have f: "start_time (tasks (helper g) ! i) \<noteq> None \<longrightarrow> helper (start_countdown i clk g) = helper g"
    using start_countdown_started by blast
  have a: "study_mode t = ''study_mode'' \<and> start_time t = None \<longrightarrow>
      start_time (start_study_mode now t) = Some now"
    by (simp add: start_study_mode_def)
  have b: "start_time t \<noteq> None \<longrightarrow> start_study_mode now' t = t"
    by (simp add: start_study_mode_def)
  have c: "start_study_mode now' (start_study_mode now t) = start_study_mode now t"
    by (simp add: start_study_mode_def)
  have d: "\<forall>j<length (tasks h). start_time (tasks h ! j) \<noteq> None \<longrightarrow>
         tasks (fst (start_study_mode_task tid now h)) ! j = tasks h ! j"
    using start_study_mode_task_keeps by blast
  have e: "(\<forall>u\<in>set (tasks h). task_id u = tid \<longrightarrow> start_time u \<noteq> None) \<longrightarrow>
         start_study_mode_task tid now h = (h, False)"
  proof
    assume "\<forall>u\<in>set (tasks h). task_id u = tid \<longrightarrow> start_time u \<noteq> None"
    then have "first_index (\<lambda>t. task_id t = tid \<and> study_mode t = ''study_mode'' \<and> start_time t = None) (tasks h) = None"
      by (auto simp: first_index_None)
    then show "start_study_mode_task tid now h = (h, False)"
      by (rule start_study_mode_task_none)
  qed
  have s: "first_index (\<lambda>u. task_id u = tid \<and> study_mode u = ''study_mode'' \<and> start_time u = None)
         (tasks h) = Some k \<longrightarrow>
         snd (start_study_mode_task tid now h)
         \<and> start_time (tasks (fst (start_study_mode_task tid now h)) ! k) = Some now
         \<and> start_time (tasks_file (fst (start_study_mode_task tid now h)) ! k) = Some (strftime_sec now)
         \<and> (\<forall>j<length (tasks h). j \<noteq> k \<longrightarrow>
               tasks (fst (start_study_mode_task tid now h)) ! j = tasks h ! j)"
  proof
    assume idx: "first_index (\<lambda>u. task_id u = tid \<and> study_mode u = ''study_mode'' \<and> start_time u = None)
         (tasks h) = Some k"
    from first_index_SomeD [OF idx]
    have k: "k < length (tasks h)" and sm: "study_mode (tasks h ! k) = ''study_mode''"
      and st: "start_time (tasks h ! k) = None"
      by simp_all
    from k sm st
    show "snd (start_study_mode_task tid now h)
         \<and> start_time (tasks (fst (start_study_mode_task tid now h)) ! k) = Some now
         \<and> start_time (tasks_file (fst (start_study_mode_task tid now h)) ! k) = Some (strftime_sec now)
         \<and> (\<forall>j<length (tasks h). j \<noteq> k \<longrightarrow>
               tasks (fst (start_study_mode_task tid now h)) ! j = tasks h ! j)"
      by (simp add: start_study_mode_task_at [OF idx] save_tasks_def start_study_mode_def to_dict_def)
  qed
  from a b c d e f s show ?thesis
    by (simp only: start_study_mode_task_length simp_thms)
qed

text \<open>
  A task started at 5 and started again at 9 keeps the start time 5; the first start of
  a task in the store, read at 5000100 microseconds, sets that time and saves 5 seconds.
\<close>

theorem start_idempotent_witness:
  "start_time (start_study_mode 5 (example_task ''task_1'' 30)) = Some 5
   \<and> start_study_mode 9 (started_task ''task_1'' 30 5) = started_task ''task_1'' 30 5
   \<and> tasks (fst (start_study_mode_task ''task_1'' 9 (store_of [started_task ''task_1'' 30 5]))) ! 0
       = started_task ''task_1'' 30 5
   \<and> start_study_mode_task ''task_1'' 9 (store_of [started_task ''task_1'' 30 5])
       = (store_of [started_task ''task_1'' 30 5], False)
   \<and> helper (start_countdown 0 (\<lambda>k. 9) (init_gui (store_of [started_task ''task_1'' 30 5])))
       = store_of [started_task ''task_1'' 30 5]
   \<and> snd (start_study_mode_task ''task_1'' 5000100 (store_of [example_task ''task_1'' 30]))
   \<and> start_time (tasks (fst (start_study_mode_task ''task_1'' 5000100
         (store_of [example_task ''task_1'' 30]))) ! 0) = Some 5000100
   \<and> start_time (tasks_file (fst (start_study_mode_task ''task_1'' 5000100
         (store_of [example_task ''task_1'' 30]))) ! 0) = Some 5000000"
proof -
  let ?g = "init_gui (store_of [started_task ''task_1'' 30 5])"
  let ?c = "\<lambda>k::nat. 9::int"
  let ?e = "example_task ''task_1'' 30"
  let ?t = "started_task ''task_1'' 30 5"
  let ?h = "store_of [?t]"
  let ?fresh = "store_of [?e]"
  have h1: "study_mode ?e = ''study_mode'' \<and> start_time ?e = None"
    by (simp add: example_task_fields)
  have h2: "start_time ?t \<noteq> None"
    by (simp add: started_task_fields)
  have h3: "0 < length (tasks ?h)" "start_time (tasks ?h ! 0) \<noteq> None"
    by (simp_all add: store_of_tasks started_task_fields)
  have h4: "\<forall>u\<in>set (tasks ?h). task_id u = ''task_1'' \<longrightarrow> start_time u \<noteq> None"
    by (simp add: store_of_tasks started_task_fields)
  from start_idempotent [of ?e 5 9 "''task_1''" ?h ?g 0 ?c 0] h1
  have c1: "start_time (start_study_mode 5 ?e) = Some 5" by blast
  from start_idempotent [of ?t 5 9 "''task_1''" ?h ?g 0 ?c 0] h2
  have c2: "start_study_mode 9 ?t = ?t" by blast
  from start_idempotent [of ?t 9 9 "''task_1''" ?h ?g 0 ?c 0] h3
  have c3: "tasks (fst (start_study_mode_task ''task_1'' 9 ?h)) ! 0 = tasks ?h ! 0" by blast
  from start_idempotent [of ?t 9 9 "''task_1''" ?h ?g 0 ?c 0] h4
  have c4: "start_study_mode_task ''task_1'' 9 ?h = (?h, False)" by blast
  have hg: "helper ?g = ?h" by (simp add: init_gui_def)
  have h5: "start_time (tasks (helper ?g) ! 0) \<noteq> None"
    by (simp add: hg store_of_tasks started_task_fields)
  from start_idempotent [of ?t 9 9 "''task_1''" ?h ?g 0 ?c 0] h5
  have c5: "helper (start_countdown 0 ?c ?g) = helper ?g" by blast
  have h6: "first_index (\<lambda>u. task_id u = ''task_1'' \<and> study_mode u = ''study_mode'' \<and> start_time u = None)
         (tasks ?fresh) = Some 0"
    by (simp add: store_of_tasks example_task_fields)
  have sec: "strftime_sec 5000100 = 5000000"
    by (simp add: strftime_sec_def)
  from start_idempotent [of ?t 5000100 9 "''task_1''" ?fresh ?g 0 ?c 0] h6
  have c6: "snd (start_study_mode_task ''task_1'' 5000100 ?fresh)
      \<and> start_time (tasks (fst (start_study_mode_task ''task_1'' 5000100 ?fresh)) ! 0) = Some 5000100
      \<and> start_time (tasks_file (fst (start_study_mode_task ''task_1'' 5000100 ?fresh)) ! 0)
           = Some (strftime_sec 5000100)"
    by blast
  from c1 c2 c3 c4 c5 c6 show ?thesis by (simp add: store_of_tasks hg sec)
qed

text \<open>
  Claim C7 as stated concludes that the start time is set at most once. Entering study
  mode with a task that is not started runs \<open>start_countdown\<close>: the store sets the start
  time to its clock reading (5000100) and saves it cut to the second, then
  \<open>start_countdown\<close> assigns its own, later reading (5000200) to the same task without
  saving. When the program is started again the task has the saved value (5000000).
\<close>

theorem start_time_set_twice:
  "start_time (tasks (fst (start_study_mode_task ''task_1'' 5000100
       (store_of [example_task ''task_1'' 30]))) ! 0) = Some 5000100
   \<and> start_time (tasks (helper (select_mode ''study_mode'' example_clock
       (init_gui (store_of [example_task ''task_1'' 30])))) ! 0) = Some 5000200
   \<and> start_time (tasks_file (helper (select_mode ''study_mode'' example_clock
       (init_gui (store_of [example_task ''task_1'' 30])))) ! 0) = Some 5000000
   \<and> start_time (tasks (helper (restart (select_mode ''study_mode'' example_clock
       (init_gui (store_of [example_task ''task_1'' 30]))))) ! 0) = Some 5000000"
proof -
  let ?e = "example_task ''task_1'' 30"
  let ?clk = "example_clock"
  let ?g = "init_gui (store_of [?e])"
  let ?g' = "select_mode ''study_mode'' ?clk ?g"
  have hg: "helper ?g = store_of [?e]"
    by (simp add: init_gui_def)
  have idx: "first_index (\<lambda>u. task_id u = ''task_1'' \<and> study_mode u = ''study_mode'' \<and> start_time u = None)
      (tasks (store_of [?e])) = Some 0"
    by (simp add: store_of_tasks example_task_fields)
  have pend: "first_index (\<lambda>t. \<not> completed t \<and> study_mode t = ''study_mode'') (tasks (store_of [?e])) = Some 0"
    by (simp add: store_of_tasks example_task_fields)
  have started: "fst (start_study_mode_task ''task_1'' now (store_of [?e]))
      = save_tasks ((store_of [?e])\<lparr>tasks := [?e\<lparr>start_time := Some now\<rparr>]\<rparr>)" for now
    by (simp add: start_study_mode_task_at [OF idx] store_of_tasks start_study_mode_def
        example_task_fields)
  have "helper ?g' = helper (start_countdown 0 ?clk
      (?g\<lparr>current_mode := ''study_mode'', running_study_task_id := Some ''task_1''\<rparr>))"
    by (simp add: select_mode_def switch_mode_def Let_def hg pend store_of_tasks example_task_fields)
  also have "\<dots> = set_start_time 0 5000200
      (fst (start_study_mode_task ''task_1'' 5000100 (store_of [?e])))"
    by (simp add: start_countdown_def Let_def hg store_of_tasks example_task_fields example_clock_def)
  finally have h': "helper ?g' = set_start_time 0 5000200
      (save_tasks ((store_of [?e])\<lparr>tasks := [?e\<lparr>start_time := Some 5000100\<rparr>]\<rparr>))"
    by (simp only: started)
  have a: "start_time (tasks (fst (start_study_mode_task ''task_1'' 5000100 (store_of [?e]))) ! 0)
      = Some 5000100"
    by (simp add: started save_tasks_def)
  have b: "start_time (tasks (helper ?g') ! 0) = Some 5000200"
    by (simp add: h' set_start_time_def save_tasks_def)
  have c: "start_time (tasks_file (helper ?g') ! 0) = Some 5000000"
    by (simp add: h' set_start_time_def save_tasks_def to_dict_def strftime_sec_def)
  have d: "start_time (tasks (helper (restart ?g')) ! 0) = Some 5000000"
    using c by (simp add: restart_def init_gui_def load_tasks_def map_from_dict)
  from a b c d show ?thesis by simp
qed

subsection \<open>Close attempts and the forced full screen\<close>


lemma record_close_attempt_at:
  assumes "first_index (\<lambda>t. task_id t = tid) (tasks h) = Some i"
  shows "record_close_attempt tid h =
           (save_tasks (h\<lparr>tasks := (tasks h)[i := (tasks h ! i)\<lparr>close_attempts := close_attempts (tasks h ! i) + 1\<rparr>]\<rparr>),
            close_attempts (tasks h ! i) + 1)"
  using assms by (simp add: record_close_attempt_def task_record_close_attempt_def)

lemma handle_close_active:
  assumes run: "running_study_task_id g = Some tid" "tid \<noteq> []"
    and mode: "current_mode g = ''study_mode''"
    and idx: "first_index (\<lambda>t. task_id t = tid) (tasks (helper g)) = Some i"
  shows "handle_close geo confirm g =
           (let n = close_attempts (tasks (helper g) ! i) + 1;
                g1 = g\<lparr>helper := bump_attempts i (helper g)\<rparr>
            in if n \<le> 1 then notify [ErrCloseForbidden] g1
               else if 3 \<le> n then enter_fullscreen geo (notify [WarnCloseAttempts n] g1)
               else notify [WarnCloseAttempts n] g1)"
  using run mode
  by (simp add: handle_close_def running_id_def record_close_attempt_at [OF idx] bump_attempts_def Let_def)



lemma enter_fullscreen_fields:
  "helper (enter_fullscreen geo g) = helper g"
  "running_study_task_id (enter_fullscreen geo g) = running_study_task_id g"
  "current_mode (enter_fullscreen geo g) = current_mode g"
  "win_destroyed (enter_fullscreen geo g) = win_destroyed g"
  "is_fullscreen (enter_fullscreen geo g)"
  "win_fullscreen (enter_fullscreen geo g)"
  "win_topmost (enter_fullscreen geo g)"
  "dialog_live (enter_fullscreen geo g)"
  "lock_label (enter_fullscreen geo g) = LockForced"
  "original_geometry (enter_fullscreen geo g) = geo"
  "shown (enter_fullscreen geo g) = shown g"
  by (simp_all add: enter_fullscreen_def show_unlock_dialog_def dialog_live_def)

lemma notify_fields:
  "helper (notify ns g) = helper g"
  "running_study_task_id (notify ns g) = running_study_task_id g"
  "current_mode (notify ns g) = current_mode g"
  "win_destroyed (notify ns g) = win_destroyed g"
  "is_fullscreen (notify ns g) = is_fullscreen g"
  "win_fullscreen (notify ns g) = win_fullscreen g"
  "win_topmost (notify ns g) = win_topmost g"
  "unlock_dialog (notify ns g) = unlock_dialog g"
  "lock_label (notify ns g) = lock_label g"
  "original_geometry (notify ns g) = original_geometry g"
  "shown (notify ns g) = shown g @ ns"
  "win_geometry (notify ns g) = win_geometry g"
  "study_mode_status (notify ns g) = study_mode_status g"
  "countdown_label (notify ns g) = countdown_label g"
  "scheduled (notify ns g) = scheduled g"
  "wrong_attempts (notify ns g) = wrong_attempts g"
  "password_var (notify ns g) = password_var g"
  "unlock_password (notify ns g) = unlock_password g"
  "error_label (notify ns g) = error_label g"
  "dialog_live (notify ns g) = dialog_live g"
  by (simp_all add: notify_def dialog_live_def)



lemma example_session_fields:
  "helper (example_session tid h) = h"
  "current_mode (example_session tid h) = ''study_mode''"
  "running_study_task_id (example_session tid h) = Some tid"
  "is_fullscreen (example_session tid h) = False"
  "win_fullscreen (example_session tid h) = False"
  "unlock_dialog (example_session tid h) = None"
  "original_geometry (example_session tid h) = ''1400x750''"
  "win_geometry (example_session tid h) = ''1400x750''"
  "unlock_password (example_session tid h) = ''123456''"
  "scheduled (example_session tid h) = []"
  by (simp_all add: example_session_def init_gui_def)



subsection \<open>Unlocking\<close>

lemma exit_fullscreen_fields:
  "helper (exit_fullscreen g) = helper g"
  "running_study_task_id (exit_fullscreen g) = running_study_task_id g"
  "current_mode (exit_fullscreen g) = current_mode g"
  "study_mode_status (exit_fullscreen g) = study_mode_status g"
  "lock_label (exit_fullscreen g) = lock_label g"
  "countdown_label (exit_fullscreen g) = countdown_label g"
  "is_fullscreen (exit_fullscreen g) = False"
  "win_fullscreen (exit_fullscreen g) = False"
  "win_topmost (exit_fullscreen g) = False"
  "win_geometry (exit_fullscreen g) = original_geometry g"
  "dialog_live (exit_fullscreen g) = False"
  "dialog_live g \<Longrightarrow> unlock_dialog (exit_fullscreen g) = None"
  "shown (exit_fullscreen g) = shown g"
  "scheduled (exit_fullscreen g) = scheduled g"
  by (simp_all add: exit_fullscreen_def dialog_live_def Let_def split: option.splits)

lemma handle_close_geometry:
  fixes geo :: string and confirm :: bool
  assumes run: "running_study_task_id g = Some tid" "tid \<noteq> []"
    and mode: "current_mode g = ''study_mode''"
    and idx: "first_index (\<lambda>t. task_id t = tid) (tasks (helper g)) = Some i"
    and n: "3 \<le> close_attempts (tasks (helper g) ! i) + 1"
  shows "original_geometry (handle_close geo confirm g) = geo"
  using n by (simp add: handle_close_active [OF run mode idx] Let_def enter_fullscreen_fields)

text \<open>What \<open>check_password\<close> does when the password entered is the unlock password.\<close>

lemma check_password_correct:
  assumes "password_var g = unlock_password g"
  shows "\<not> win_fullscreen (check_password g)" "\<not> win_topmost (check_password g)"
    and "\<not> is_fullscreen (check_password g)"
    and "win_geometry (check_password g) = original_geometry g"
    and "\<not> dialog_live (check_password g)"
    and "helper (check_password g) = helper g"
    and "running_study_task_id (check_password g) = running_study_task_id g"
    and "shown (check_password g) = shown g @ [InfoUnlocked]"
  using assms by (simp_all add: check_password_def notify_fields exit_fullscreen_fields)

subsection \<open>The unlock challenge\<close>

lemma locked_session_eq:
  "locked_session =
    \<lparr> helper = store_of [started_task ''task_1'' 30 0], current_mode = ''study_mode'',
      running_study_task_id = Some ''task_1'',
      countdown_label = False, study_mode_status = StatusEmpty, lock_label = LockForced,
      original_geometry = ''1400x750+10+10'', is_fullscreen = True,
      win_geometry = ''1400x750'', win_fullscreen = True, win_topmost = True,
      win_destroyed = False, unlock_password = ''123456'',
      unlock_dialog = Some \<lparr>winfo_exists = True, inputs_enabled = True\<rparr>,
      wrong_attempts = 0, password_var = [], error_label = ErrorEmpty,
      scheduled = [], shown = [] \<rparr>"
  by (simp add: locked_session_def enter_fullscreen_def show_unlock_dialog_def dialog_live_def
      example_session_def init_gui_def)

lemmas unlock_defs =
  submit_return_def submit_click_def press_return_def click_unlock_button_def type_password_def
  check_password_def reset_unlock_dialog_def dialog_live_def disable_inputs_def enable_inputs_def
  fire_def run_callback_def Let_def

lemma three_wrong:
  "submit_return ''000000'' (submit_return ''111111'' (submit_return ''222222'' locked_session)) =
     locked_session\<lparr>wrong_attempts := 3, password_var := ''000000'', error_label := ErrorTooMany,
        unlock_dialog := Some \<lparr>winfo_exists = True, inputs_enabled = False\<rparr>,
        scheduled := [(5000, ResetUnlockDialog)]\<rparr>"
  by (simp add: locked_session_eq unlock_defs)

text \<open>
  Claim C3. Three wrong submissions in the locked example session: the counter is 3, the
  entry and the button are disabled and one reset is due in 5000 ms. The button and the
  entry refuse a further submission. The Return key does not: it is bound on the dialog
  window, which the disabling of the entry and the button leaves alone, so pressing it
  during the cool-down runs \<open>check_password\<close> once more, the counter goes to 4 and a
  second reset is scheduled. When the first reset has fired, two wrong submissions follow,
  the second reset fires and a third wrong submission follows, the counter is 1 and the
  inputs are enabled: no lock-out on the third wrong submission in a row.
\<close>

theorem cooldown_return_resubmits:
  "wrong_attempts (submit_return ''000000'' (submit_return ''111111'' (submit_return ''222222'' locked_session))) = 3
   \<and> scheduled (submit_return ''000000'' (submit_return ''111111'' (submit_return ''222222'' locked_session)))
       = [(5000, ResetUnlockDialog)]
   \<and> submit_click ''123456'' (submit_return ''000000'' (submit_return ''111111'' (submit_return ''222222'' locked_session)))
       = submit_return ''000000'' (submit_return ''111111'' (submit_return ''222222'' locked_session))
   \<and> wrong_attempts (press_return (submit_return ''000000'' (submit_return ''111111''
         (submit_return ''222222'' locked_session)))) = 4
   \<and> scheduled (press_return (submit_return ''000000'' (submit_return ''111111''
         (submit_return ''222222'' locked_session))))
       = [(5000, ResetUnlockDialog), (5000, ResetUnlockDialog)]
   \<and> wrong_attempts (submit_return ''555555'' (fire 0 (\<lambda>k. 0) (submit_return ''444444'' (submit_return ''333333''
         (fire 0 (\<lambda>k. 0) (press_return (submit_return ''000000'' (submit_return ''111111''
            (submit_return ''222222'' locked_session))))))))) = 1
   \<and> unlock_dialog (submit_return ''555555'' (fire 0 (\<lambda>k. 0) (submit_return ''444444'' (submit_return ''333333''
         (fire 0 (\<lambda>k. 0) (press_return (submit_return ''000000'' (submit_return ''111111''
            (submit_return ''222222'' locked_session)))))))))
       = Some \<lparr>winfo_exists = True, inputs_enabled = True\<rparr>"
  by (simp add: three_wrong locked_session_eq unlock_defs)

subsection \<open>Locking again while locked\<close>

lemmas close_defs =
  handle_close_def running_id_def record_close_attempt_def task_record_close_attempt_def
  save_tasks_def notify_def enter_fullscreen_def show_unlock_dialog_def dialog_live_def
  example_session_def init_gui_def store_of_def started_task_def example_task_def new_task_def
  start_study_mode_def to_dict_def strftime_sec_def Let_def

text \<open>
  Claim C5. \<open>enter_fullscreen\<close> stores the geometry the window has at the call, also
  when the window is already locked. Three close requests lock the example session with
  the captured geometry 1400x750+10+10; a fourth close request, made while the window
  covers the screen (1920x1080+0+0), replaces the captured geometry, and the unlock that
  follows gives the window the full-screen geometry, not the one from before the lock.
\<close>

theorem reentry_overwrites_geometry:
  "is_fullscreen (handle_close ''1400x750+10+10'' False (handle_close ''1400x750+10+10'' False
      (handle_close ''1400x750+10+10'' False
         (example_session ''task_1'' (store_of [started_task ''task_1'' 30 0])))))
   \<and> original_geometry (handle_close ''1400x750+10+10'' False (handle_close ''1400x750+10+10'' False
      (handle_close ''1400x750+10+10'' False
         (example_session ''task_1'' (store_of [started_task ''task_1'' 30 0]))))) = ''1400x750+10+10''
   \<and> original_geometry (handle_close ''1920x1080+0+0'' False
      (handle_close ''1400x750+10+10'' False (handle_close ''1400x750+10+10'' False
      (handle_close ''1400x750+10+10'' False
         (example_session ''task_1'' (store_of [started_task ''task_1'' 30 0])))))) = ''1920x1080+0+0''
   \<and> win_geometry (submit_return ''123456'' (handle_close ''1920x1080+0+0'' False
      (handle_close ''1400x750+10+10'' False (handle_close ''1400x750+10+10'' False
      (handle_close ''1400x750+10+10'' False
         (example_session ''task_1'' (store_of [started_task ''task_1'' 30 0]))))))) = ''1920x1080+0+0''"
  by (simp add: close_defs unlock_defs exit_fullscreen_def)

text \<open>
  Claim C6. With the right password \<open>check_password\<close> leaves full screen and topmost,
  closes the unlock dialog and leaves the store, so every start time, as it is. The
  geometry it gives the window is the one \<open>original_geometry\<close> holds, which is the
  geometry from before the lock only when the lock was entered once. In the example
  session the lock is entered at the third close request with 1400x750+10+10 captured;
  after a fourth close request made while the window covers the screen, the right
  password gives the window 1920x1080+0+0.
\<close>

theorem unlock_after_relock:
  "original_geometry (handle_close ''1400x750+10+10'' False (handle_close ''1400x750+10+10'' False
      (handle_close ''1400x750+10+10'' False
         (example_session ''task_1'' (store_of [started_task ''task_1'' 30 0]))))) = ''1400x750+10+10''
   \<and> password_var (type_password ''123456'' (handle_close ''1920x1080+0+0'' False
      (handle_close ''1400x750+10+10'' False (handle_close ''1400x750+10+10'' False
      (handle_close ''1400x750+10+10'' False
         (example_session ''task_1'' (store_of [started_task ''task_1'' 30 0]))))))) = ''123456''
   \<and> unlock_password (type_password ''123456'' (handle_close ''1920x1080+0+0'' False
      (handle_close ''1400x750+10+10'' False (handle_close ''1400x750+10+10'' False
      (handle_close ''1400x750+10+10'' False
         (example_session ''task_1'' (store_of [started_task ''task_1'' 30 0]))))))) = ''123456''
   \<and> \<not> win_fullscreen (check_password (type_password ''123456'' (handle_close ''1920x1080+0+0'' False
      (handle_close ''1400x750+10+10'' False (handle_close ''1400x750+10+10'' False
      (handle_close ''1400x750+10+10'' False
         (example_session ''task_1'' (store_of [started_task ''task_1'' 30 0]))))))))
   \<and> \<not> win_topmost (check_password (type_password ''123456'' (handle_close ''1920x1080+0+0'' False
      (handle_close ''1400x750+10+10'' False (handle_close ''1400x750+10+10'' False
      (handle_close ''1400x750+10+10'' False
         (example_session ''task_1'' (store_of [started_task ''task_1'' 30 0]))))))))
   \<and> unlock_dialog (check_password (type_password ''123456'' (handle_close ''1920x1080+0+0'' False
      (handle_close ''1400x750+10+10'' False (handle_close ''1400x750+10+10'' False
      (handle_close ''1400x750+10+10'' False
         (example_session ''task_1'' (store_of [started_task ''task_1'' 30 0])))))))) = None
   \<and> win_geometry (check_password (type_password ''123456'' (handle_close ''1920x1080+0+0'' False
      (handle_close ''1400x750+10+10'' False (handle_close ''1400x750+10+10'' False
      (handle_close ''1400x750+10+10'' False
         (example_session ''task_1'' (store_of [started_task ''task_1'' 30 0])))))))) = ''1920x1080+0+0''"
  by (simp add: close_defs unlock_defs exit_fullscreen_def)

subsection \<open>Switching the mode\<close>

lemma switch_blocked_iff:
  "switch_blocked now g \<longleftrightarrow>
     (\<exists>tid t s. running_study_task_id g = Some tid \<and> tid \<noteq> []
        \<and> find (\<lambda>t. task_id t = tid) (tasks (helper g)) = Some t
        \<and> start_time t = Some s \<and> now - s < time_limit t * minute_us)"
  by (auto simp: switch_blocked_def running_id_def split: option.splits if_splits)

lemma leave_session_fields:
  "helper (leave_session g) = helper g"
  "current_mode (leave_session g) = current_mode g"
  "running_study_task_id (leave_session g) = None"
  "countdown_label (leave_session g) = False"
  "study_mode_status (leave_session g) = StatusEmpty"
  "lock_label (leave_session g) = LockEmpty"
  "is_fullscreen (leave_session g) = False"
  "is_fullscreen g \<Longrightarrow> \<not> win_fullscreen (leave_session g) \<and> \<not> win_topmost (leave_session g)
     \<and> win_geometry (leave_session g) = original_geometry g \<and> \<not> dialog_live (leave_session g)"
  "shown (leave_session g) = shown g"
  by (simp_all add: leave_session_def Let_def exit_fullscreen_fields)

text \<open>
  Claim C4. When the mode selector has been put on normal, \<open>switch_mode\<close> refuses
  exactly when there is a running task (its id set and not empty) that is in the store,
  has a start time, and whose elapsed time is below its limit. A refusal shows an error,
  puts the selector back on study mode and changes nothing else. Otherwise the mode stays
  normal, the running task id, the countdown label, the status text and the lock label are
  cleared, and the window is no longer full screen.
\<close>

theorem mode_switch_guard:
  assumes nm: "current_mode g = ''normal''"
  shows "(current_mode (switch_mode clk g) = ''study_mode'' \<longleftrightarrow>
            (\<exists>tid t s. running_study_task_id g = Some tid \<and> tid \<noteq> []
               \<and> find (\<lambda>t. task_id t = tid) (tasks (helper g)) = Some t
               \<and> start_time t = Some s \<and> clk 0 - s < time_limit t * minute_us))
       \<and> (current_mode (switch_mode clk g) = ''study_mode'' \<longrightarrow>
            switch_mode clk g = (notify [ErrModeSwitchFailed] g)\<lparr>current_mode := ''study_mode''\<rparr>)
       \<and> (current_mode (switch_mode clk g) \<noteq> ''study_mode'' \<longrightarrow>
            current_mode (switch_mode clk g) = ''normal''
            \<and> running_study_task_id (switch_mode clk g) = None
            \<and> \<not> countdown_label (switch_mode clk g)
            \<and> study_mode_status (switch_mode clk g) = StatusEmpty
            \<and> lock_label (switch_mode clk g) = LockEmpty
            \<and> \<not> is_fullscreen (switch_mode clk g)
            \<and> (is_fullscreen g \<longrightarrow> \<not> win_fullscreen (switch_mode clk g) \<and> \<not> win_topmost (switch_mode clk g))
            \<and> helper (switch_mode clk g) = helper g)"
proof (cases "switch_blocked (clk 0) g")
  case True
  with nm have eq: "switch_mode clk g = (notify [ErrModeSwitchFailed] g)\<lparr>current_mode := ''study_mode''\<rparr>"
    by (simp add: switch_mode_def Let_def)
  have "current_mode (switch_mode clk g) = ''study_mode''"
    by (simp add: eq)
  with True eq show ?thesis
    by (simp only: switch_blocked_iff [symmetric] simp_thms)
next
  case False
  with nm have eq: "switch_mode clk g = leave_session g"
    by (simp add: switch_mode_def Let_def)
  from nm have "current_mode (switch_mode clk g) \<noteq> ''study_mode''"
    by (simp add: eq leave_session_fields)
  with False nm show ?thesis
    unfolding switch_blocked_iff [symmetric]
    by (simp add: eq leave_session_fields)
qed

text \<open>
  The example session, started at 0 with a limit of 30 minutes, after the selector was put
  on normal: refused at 29 minutes, allowed at 30 minutes.
\<close>

theorem mode_switch_guard_witness:
  "current_mode (select_mode ''normal'' (\<lambda>k. 1740000000)
       (example_session ''task_1'' (store_of [started_task ''task_1'' 30 0]))) = ''study_mode''
   \<and> running_study_task_id (select_mode ''normal'' (\<lambda>k. 1740000000)
       (example_session ''task_1'' (store_of [started_task ''task_1'' 30 0]))) = Some ''task_1''
   \<and> current_mode (select_mode ''normal'' (\<lambda>k. 1800000000)
       (example_session ''task_1'' (store_of [started_task ''task_1'' 30 0]))) = ''normal''
   \<and> running_study_task_id (select_mode ''normal'' (\<lambda>k. 1800000000)
       (example_session ''task_1'' (store_of [started_task ''task_1'' 30 0]))) = None
   \<and> lock_label (select_mode ''normal'' (\<lambda>k. 1800000000)
       (example_session ''task_1'' (store_of [started_task ''task_1'' 30 0]))) = LockEmpty"
proof -
  let ?s = "example_session ''task_1'' (store_of [started_task ''task_1'' 30 0])"
  let ?g = "?s\<lparr>current_mode := ''normal''\<rparr>"
  have nm: "current_mode ?g = ''normal''" by simp
  have run: "running_study_task_id ?g = Some ''task_1''"
    and fnd: "find (\<lambda>t. task_id t = ''task_1'') (tasks (helper ?g)) = Some (started_task ''task_1'' 30 0)"
    by (simp_all add: example_session_fields store_of_tasks started_task_fields)
  have early: "\<exists>tid t s. running_study_task_id ?g = Some tid \<and> tid \<noteq> []
               \<and> find (\<lambda>t. task_id t = tid) (tasks (helper ?g)) = Some t
               \<and> start_time t = Some s \<and> (\<lambda>k::nat. 1740000000::int) 0 - s < time_limit t * minute_us"
    using run fnd by (simp add: started_task_fields minute_us_def)
  have late: "\<not> (\<exists>tid t s. running_study_task_id ?g = Some tid \<and> tid \<noteq> []
               \<and> find (\<lambda>t. task_id t = tid) (tasks (helper ?g)) = Some t
               \<and> start_time t = Some s \<and> (\<lambda>k::nat. 1800000000::int) 0 - s < time_limit t * minute_us)"
    using run fnd by (simp add: started_task_fields minute_us_def)
  from mode_switch_guard [OF nm, of "\<lambda>k. 1740000000"] early
  have a: "current_mode (switch_mode (\<lambda>k. 1740000000) ?g) = ''study_mode''"
    and a': "switch_mode (\<lambda>k. 1740000000) ?g = (notify [ErrModeSwitchFailed] ?g)\<lparr>current_mode := ''study_mode''\<rparr>"
    by blast+
  from a' run have a2: "running_study_task_id (switch_mode (\<lambda>k. 1740000000) ?g) = Some ''task_1''"
    by (simp add: notify_fields)
  from mode_switch_guard [OF nm, of "\<lambda>k. 1800000000"] late
  have b: "current_mode (switch_mode (\<lambda>k. 1800000000) ?g) = ''normal''
     \<and> running_study_task_id (switch_mode (\<lambda>k. 1800000000) ?g) = None
     \<and> lock_label (switch_mode (\<lambda>k. 1800000000) ?g) = LockEmpty"
    by blast
  from a a2 b show ?thesis by (simp add: select_mode_def)
qed

subsection \<open>Deleting the running task\<close>

lemma delete_task_tasks:
  "tasks (fst (delete_task tid h)) = filter (\<lambda>t. task_id t \<noteq> tid) (tasks h)"
  by (simp add: delete_task_def Let_def save_tasks_def)

lemma delete_task_file:
  assumes "\<exists>t\<in>set (tasks h). task_id t = tid"
  shows "tasks_file (fst (delete_task tid h)) = map to_dict (filter (\<lambda>t. task_id t \<noteq> tid) (tasks h))"
proof -
  from assms have "length (filter (\<lambda>t. task_id t \<noteq> tid) (tasks h)) < length (tasks h)"
    by (auto intro: length_filter_less)
  then show ?thesis
    by (simp add: delete_task_def Let_def save_tasks_def)
qed

lemma to_dict_fields:
  "task_id (to_dict t) = task_id t"
  "close_attempts (to_dict t) = close_attempts t"
  "completed (to_dict t) = completed t"
  by (simp_all add: to_dict_def)

text \<open>
  Claim C9. The delete action on the row of the running study-mode task, confirmed, while
  the window is full screen: the running task id, the status text and the lock label are
  cleared, the window leaves full screen and topmost and the unlock dialog is gone. The
  task list is the old one without the tasks of that id, every other task as it was, and
  the file is written from that list: no task of the id is left in the list or in the
  file, so none is recorded as completed.
\<close>

theorem delete_running_task:
  fixes click_x x width :: int
  assumes sel: "find (\<lambda>t. suffix short_id (task_id t)) (tasks (helper g)) = Some ft"
    and tid: "task_id ft = tid" "tid \<noteq> []"
    and idx: "first_index (\<lambda>t. task_id t = tid) (tasks (helper g)) = Some i"
    and sm: "study_mode (tasks (helper g) ! i) = ''study_mode''"
    and click: "2 * width \<le> 3 * (click_x - x)" "width \<le> 3 * (click_x - x)"
    and run: "running_study_task_id g = Some tid"
    and fs: "is_fullscreen g"
  shows "(let g' = on_task_select (Some short_id) True click_x x width True clk g
          in running_study_task_id g' = None
             \<and> study_mode_status g' = StatusEmpty
             \<and> lock_label g' = LockEmpty
             \<and> \<not> is_fullscreen g' \<and> \<not> win_fullscreen g' \<and> \<not> win_topmost g'
             \<and> \<not> dialog_live g'
             \<and> win_geometry g' = original_geometry g
             \<and> tasks (helper g') = filter (\<lambda>t. task_id t \<noteq> tid) (tasks (helper g))
             \<and> tasks_file (helper g') = map to_dict (tasks (helper g'))
             \<and> (\<forall>t\<in>set (tasks (helper g')). task_id t \<noteq> tid)
             \<and> (\<forall>d\<in>set (tasks_file (helper g')). task_id d \<noteq> tid))"
proof -
  define g1 where "g1 = g\<lparr>helper := fst (delete_task tid (helper g)),
                          running_study_task_id := None,
                          study_mode_status := StatusEmpty,
                          lock_label := LockEmpty\<rparr>"
  from first_index_SomeD [OF idx] have ex: "\<exists>t\<in>set (tasks (helper g)). task_id t = tid"
    by (metis nth_mem)
  from click have nc: "\<not> 3 * (click_x - x) < width" "\<not> 3 * (click_x - x) < 2 * width"
    by simp_all
  have g1fs: "is_fullscreen g1" using fs by (simp add: g1_def)
  have eq: "on_task_select (Some short_id) True click_x x width True clk g
              = notify [InfoDeleted] (exit_fullscreen g1)"
    using sel tid idx sm nc g1fs
    by (simp add: on_task_select_def Let_def g1_def [symmetric])
  have h1: "helper g1 = fst (delete_task tid (helper g))"
    and r1: "running_study_task_id g1 = None" "study_mode_status g1 = StatusEmpty"
      "lock_label g1 = LockEmpty" "original_geometry g1 = original_geometry g"
    by (simp_all add: g1_def)
  show ?thesis
    unfolding Let_def eq
    by (simp add: notify_fields exit_fullscreen_fields h1 r1 delete_task_tasks
        delete_task_file [OF ex] to_dict_fields)
qed

text \<open>The locked example session, its only task deleted from the action column.\<close>

theorem delete_running_task_witness:
  "running_study_task_id (on_task_select (Some ''task_1'') True 90 0 90 True (\<lambda>k. 0) locked_session) = None
   \<and> \<not> is_fullscreen (on_task_select (Some ''task_1'') True 90 0 90 True (\<lambda>k. 0) locked_session)
   \<and> tasks (helper (on_task_select (Some ''task_1'') True 90 0 90 True (\<lambda>k. 0) locked_session)) = []
   \<and> tasks_file (helper (on_task_select (Some ''task_1'') True 90 0 90 True (\<lambda>k. 0) locked_session)) = []"
proof -
  let ?t = "started_task ''task_1'' 30 0"
  have hl: "helper locked_session = store_of [?t]"
    and run: "running_study_task_id locked_session = Some ''task_1''"
    and fs: "is_fullscreen locked_session"
    by (simp_all add: locked_session_eq)
  have sel: "find (\<lambda>t. suffix ''task_1'' (task_id t)) (tasks (helper locked_session)) = Some ?t"
    by (simp add: hl store_of_tasks started_task_fields)
  have tid: "task_id ?t = ''task_1''" "''task_1'' \<noteq> []"
    by (simp_all add: started_task_fields)
  have idx: "first_index (\<lambda>t. task_id t = ''task_1'') (tasks (helper locked_session)) = Some 0"
    by (simp add: hl store_of_tasks started_task_fields)
  have sm: "study_mode (tasks (helper locked_session) ! 0) = ''study_mode''"
    by (simp add: hl store_of_tasks started_task_fields)
  have click: "2 * (90::int) \<le> 3 * (90 - 0)" "(90::int) \<le> 3 * (90 - 0)" by simp_all
  from delete_running_task [OF sel tid idx sm click run fs, of "\<lambda>k. 0"]
  show ?thesis
    by (simp add: Let_def hl store_of_tasks started_task_fields)
qed

subsection \<open>Close attempts never go down\<close>

lemma attempts_mono_refl: "attempts_mono ts ts"
  by (simp add: attempts_mono_def)

lemma attempts_mono_trans:
  "attempts_mono ts ts' \<Longrightarrow> attempts_mono ts' ts'' \<Longrightarrow> attempts_mono ts ts''"
  unfolding attempts_mono_def by (metis (no_types, lifting) order_trans less_le_trans)

lemma good_step_refl: "good_step h h"
  by (simp add: good_step_def attempts_mono_refl)

lemma good_step_trans: "good_step h h' \<Longrightarrow> good_step h' h'' \<Longrightarrow> good_step h h''"
  unfolding good_step_def using attempts_mono_trans by blast

lemma good_step_preserved: "good_step h h' \<Longrightarrow> attempts_preserved h h'"
  by (auto simp: good_step_def attempts_preserved_def)

lemma in_sync_save: "in_sync (save_tasks h)"
  by (simp add: in_sync_def save_tasks_def to_dict_fields comp_def)

lemma tasks_save: "tasks (save_tasks h) = tasks h"
  by (simp add: save_tasks_def)

lemma map_update_same:
  "f y = f (xs ! i) \<Longrightarrow> map f (xs[i := y]) = map f xs"
proof (induction xs arbitrary: i)
  case Nil
  then show ?case by simp
next
  case (Cons x xs)
  then show ?case by (cases i) simp_all
qed

lemma attempts_mono_update:
  assumes "task_id y = task_id (ts ! i)" "close_attempts (ts ! i) \<le> close_attempts y"
  shows "attempts_mono ts (ts[i := y])"
proof (cases "i < length ts")
  case True
  with assms show ?thesis
    by (auto simp: attempts_mono_def nth_list_update)
next
  case False
  then have "length ts \<le> i" by simp
  then have "ts[i := y] = ts" by (rule list_update_beyond)
  then show ?thesis by (simp add: attempts_mono_refl)
qed

lemma in_sync_update:
  assumes "in_sync h" "task_id y = task_id (tasks h ! i)" "close_attempts y = close_attempts (tasks h ! i)"
  shows "in_sync (h\<lparr>tasks := (tasks h)[i := y]\<rparr>)"
  using assms by (simp add: in_sync_def map_update_same)

lemma good_step_add: "good_step h (add_task fresh_id now subj cont dl prio smode lim h)"
  by (simp add: good_step_def add_task_def in_sync_save tasks_save attempts_mono_def nth_append)

lemma good_step_start: "good_step h (fst (start_study_mode_task tid now h))"
proof (cases "first_index (\<lambda>t. task_id t = tid \<and> study_mode t = ''study_mode'' \<and> start_time t = None) (tasks h)")
  case None
  then show ?thesis by (simp add: start_study_mode_task_none good_step_refl)
next
  case (Some i)
  have "attempts_mono (tasks h) ((tasks h)[i := start_study_mode now (tasks h ! i)])"
    by (rule attempts_mono_update) (simp_all add: start_study_mode_def)
  then show ?thesis
    by (simp add: start_study_mode_task_at [OF Some] good_step_def in_sync_save tasks_save)
qed

lemma complete_keeps:
  "task_id (fst (complete now t)) = task_id t"
  "close_attempts (fst (complete now t)) = close_attempts t"
  by (simp_all add: complete_def Let_def split: option.splits)

lemma good_step_complete: "good_step h (fst (complete_task tid now h))"
proof (cases "first_index (\<lambda>u. task_id u = tid) (tasks h)")
  case None
  then show ?thesis by (simp add: complete_task_def good_step_refl)
next
  case (Some i)
  obtain t' ok msgs where c: "complete now (tasks h ! i) = (t', ok, msgs)"
    by (cases "complete now (tasks h ! i)") auto
  from complete_keeps [of now "tasks h ! i"] c
  have k: "task_id t' = task_id (tasks h ! i)" "close_attempts t' = close_attempts (tasks h ! i)"
    by simp_all
  then have m: "attempts_mono (tasks h) ((tasks h)[i := t'])"
    by (intro attempts_mono_update) simp_all
  show ?thesis
  proof (cases ok)
    case True
    with c m show ?thesis
      by (simp add: complete_task_at [OF Some] good_step_def in_sync_save tasks_save)
  next
    case False
    with c m k show ?thesis
      by (simp add: complete_task_at [OF Some] good_step_def in_sync_update)
  qed
qed

lemma good_step_record: "good_step h (fst (record_close_attempt tid h))"
proof (cases "first_index (\<lambda>u. task_id u = tid) (tasks h)")
  case None
  then show ?thesis by (simp add: record_close_attempt_def good_step_refl)
next
  case (Some i)
  have "attempts_mono (tasks h)
          ((tasks h)[i := (tasks h ! i)\<lparr>close_attempts := close_attempts (tasks h ! i) + 1\<rparr>])"
    by (rule attempts_mono_update) simp_all
  then show ?thesis
    by (simp add: record_close_attempt_at [OF Some] good_step_def in_sync_save tasks_save)
qed

lemma good_step_set_start: "good_step h (set_start_time i now h)"
proof -
  have "attempts_mono (tasks h) ((tasks h)[i := (tasks h ! i)\<lparr>start_time := Some now\<rparr>])"
    by (rule attempts_mono_update) simp_all
  then show ?thesis
    by (simp add: good_step_def set_start_time_def in_sync_update)
qed

lemma good_step_load: "good_step h (load_tasks h)"
proof -
  have "in_sync h \<Longrightarrow> attempts_mono (tasks h) (tasks_file h)"
  proof -
    assume s: "in_sync h"
    then have l: "length (tasks_file h) = length (tasks h)"
      unfolding in_sync_def by (metis length_map)
    have "\<forall>i<length (tasks h). task_id (tasks_file h ! i) = task_id (tasks h ! i)
            \<and> close_attempts (tasks_file h ! i) = close_attempts (tasks h ! i)"
    proof (intro allI impI)
      fix i assume i: "i < length (tasks h)"
      from s have "map task_id (tasks_file h) ! i = map task_id (tasks h) ! i"
        and "map close_attempts (tasks_file h) ! i = map close_attempts (tasks h) ! i"
        by (simp_all add: in_sync_def)
      with i l show "task_id (tasks_file h ! i) = task_id (tasks h ! i)
            \<and> close_attempts (tasks_file h ! i) = close_attempts (tasks h ! i)"
        by simp
    qed
    with l show ?thesis by (simp add: attempts_mono_def)
  qed
  then show ?thesis
    by (simp add: good_step_def load_tasks_def map_from_dict in_sync_def)
qed

lemma preserved_delete: "attempts_preserved h (fst (delete_task tid h))"
proof (cases "length (filter (\<lambda>t. task_id t \<noteq> tid) (tasks h)) < length (tasks h)")
  case True
  then have "fst (delete_task tid h) = save_tasks (h\<lparr>tasks := filter (\<lambda>t. task_id t \<noteq> tid) (tasks h)\<rparr>)"
    by (simp add: delete_task_def Let_def)
  then show ?thesis
    by (auto simp: attempts_preserved_def in_sync_save tasks_save)
next
  case False
  then have "length (filter (\<lambda>t. task_id t \<noteq> tid) (tasks h)) = length (tasks h)"
    using length_filter_le [of "\<lambda>t. task_id t \<noteq> tid" "tasks h"] by simp
  then have same: "filter (\<lambda>t. task_id t \<noteq> tid) (tasks h) = tasks h"
    by (metis (mono_tags, lifting) filter_True length_filter_less linorder_neq_iff)
  with False have "fst (delete_task tid h) = h"
    by (simp add: delete_task_def Let_def)
  then show ?thesis
    by (simp add: attempts_preserved_def attempts_mono_refl)
qed

lemma helper_unlock_steps:
  "helper (check_password g) = helper g"
  "helper (reset_unlock_dialog g) = helper g"
  "helper (type_password s g) = helper g"
  "helper (close_unlock_dialog g) = helper g"
  by (simp_all add: check_password_def reset_unlock_dialog_def type_password_def
      close_unlock_dialog_def disable_inputs_def enable_inputs_def notify_fields
      exit_fullscreen_fields Let_def split: option.splits)

lemma helper_unlock_events:
  "helper (press_return g) = helper g"
  "helper (click_unlock_button g) = helper g"
  "helper (fire k clk g) = helper g"
  by (simp_all add: press_return_def click_unlock_button_def fire_def run_callback_def
      helper_unlock_steps split: option.splits callback.splits)

lemma good_step_start_countdown: "good_step (helper g) (helper (start_countdown i clk g))"
proof (cases "start_time (tasks (helper g) ! i)")
  case None
  then have "helper (start_countdown i clk g)
      = set_start_time i (clk 2) (fst (start_study_mode_task (task_id (tasks (helper g) ! i)) (clk 1) (helper g)))"
    by (simp add: start_countdown_def Let_def)
  then show ?thesis
    using good_step_trans [OF good_step_start good_step_set_start] by simp
next
  case (Some s)
  then show ?thesis by (simp add: start_countdown_started good_step_refl)
qed

lemma good_step_switch_mode: "good_step (helper g) (helper (switch_mode clk g))"
proof -
  have "helper (switch_mode clk g) = helper g
        \<or> (\<exists>i rid. helper (switch_mode clk g)
              = helper (start_countdown i clk (g\<lparr>running_study_task_id := rid\<rparr>)))"
    by (auto simp: switch_mode_def Let_def notify_fields leave_session_fields split: option.splits)
  then show ?thesis
  proof
    assume "helper (switch_mode clk g) = helper g"
    then show ?thesis by (simp add: good_step_refl)
  next
    assume "\<exists>i rid. helper (switch_mode clk g)
              = helper (start_countdown i clk (g\<lparr>running_study_task_id := rid\<rparr>))"
    then obtain i rid where "helper (switch_mode clk g)
              = helper (start_countdown i clk (g\<lparr>running_study_task_id := rid\<rparr>))" by blast
    with good_step_start_countdown [of "g\<lparr>running_study_task_id := rid\<rparr>" i clk]
    show ?thesis by simp
  qed
qed

lemma good_step_select_mode: "good_step (helper g) (helper (select_mode m clk g))"
  using good_step_switch_mode [of "g\<lparr>current_mode := m\<rparr>" clk]
  by (simp add: select_mode_def)

lemma good_step_handle_close: "good_step (helper g) (helper (handle_close geo confirm g))"
proof (cases "running_id g")
  case None
  then show ?thesis by (simp add: handle_close_def good_step_refl)
next
  case (Some rid)
  obtain h' n where r: "record_close_attempt rid (helper g) = (h', n)"
    by (cases "record_close_attempt rid (helper g)") auto
  from good_step_record [of "helper g" rid] r have g: "good_step (helper g) h'" by simp
  from Some r g show ?thesis
    by (simp add: handle_close_def Let_def notify_fields enter_fullscreen_fields good_step_refl)
qed

lemma good_step_save_task:
  "good_step (helper g) (helper (save_task fresh_id now subj cont dl prio manual combo date_ok g))"
proof -
  have "helper (save_task fresh_id now subj cont dl prio manual combo date_ok g) = helper g
        \<or> (\<exists>lim. helper (save_task fresh_id now subj cont dl prio manual combo date_ok g)
              = add_task fresh_id now subj cont dl prio (current_mode g) lim (helper g))"
    by (auto simp: save_task_def notify_fields split: option.splits sum.splits if_splits)
  then show ?thesis
    using good_step_refl good_step_add by (metis (no_types))
qed

lemma good_step_restart: "good_step (helper g) (helper (restart g))"
  by (simp add: restart_def init_gui_def good_step_load)

lemma preserved_on_task_select:
  "attempts_preserved (helper g) (helper (on_task_select sel col7 click_x x width confirm clk g))"
proof -
  have r: "attempts_preserved (helper g) (helper g)"
    by (simp add: good_step_preserved good_step_refl)
  have s: "attempts_preserved (helper g)
             (helper (start_countdown i clk
                (g\<lparr>helper := fst (start_study_mode_task tid (clk 0) (helper g)),
                   running_study_task_id := Some tid\<rparr>)))" for i tid
  proof -
    define g1 where "g1 = g\<lparr>helper := fst (start_study_mode_task tid (clk 0) (helper g)),
                   running_study_task_id := Some tid\<rparr>"
    have "good_step (helper g) (helper g1)"
      by (simp add: g1_def good_step_start)
    from good_step_trans [OF this good_step_start_countdown [of g1 i clk]]
    show ?thesis
      unfolding g1_def by (rule good_step_preserved)
  qed
  have d: "attempts_preserved (helper g) (fst (delete_task tid (helper g)))" for tid
    by (rule preserved_delete)
  show ?thesis
  proof (cases sel)
    case None
    then show ?thesis by (simp add: on_task_select_def r)
  next
    case (Some short_id)
    show ?thesis
    proof (cases "find (\<lambda>t. suffix short_id (task_id t)) (tasks (helper g))")
      case None
      with Some show ?thesis by (simp add: on_task_select_def r)
    next
      case ft: (Some ft)
      show ?thesis
      proof (cases "first_index (\<lambda>t. task_id t = task_id ft) (tasks (helper g))")
        case None
        with Some ft show ?thesis by (simp add: on_task_select_def Let_def r)
      next
        case i: (Some i)
        obtain h' ok msgs where c: "complete_task (task_id ft) (clk 0) (helper g) = (h', ok, msgs)"
          by (cases "complete_task (task_id ft) (clk 0) (helper g)") auto
        from good_step_complete [of "helper g" "task_id ft" "clk 0"] c
        have cp: "attempts_preserved (helper g) h'"
          by (simp add: good_step_preserved)
        from Some ft i c show ?thesis
          by (simp add: on_task_select_def Let_def notify_fields exit_fullscreen_fields r s d cp)
      qed
    qed
  qed
qed

text \<open>
  Claim C8. Across every event of the window (\<open>step\<close>) and every method of the store
  (\<open>run_op\<close>), starting from a store whose file is in sync: the store is in sync again,
  and either every task of the old list is still at its position with a counter that is
  not smaller, or the new list is the old one without the tasks of one id (a deletion),
  the tasks that stay being unchanged. A store read from its file is in sync.
  \<open>record_close_attempt\<close> on a task that is in the store raises its counter by
  exactly 1, returns the new count, writes it to the file at once and leaves the other
  tasks as they are.
\<close>

theorem attempts_never_decrease:
  "attempts_preserved (helper g) (helper (step e g))
   \<and> attempts_preserved h (run_op op h)
   \<and> in_sync (helper (restart g))
   \<and> (first_index (\<lambda>t. task_id t = tid) (tasks h) = Some i \<longrightarrow>
         snd (record_close_attempt tid h) = close_attempts (tasks h ! i) + 1
         \<and> close_attempts (tasks (fst (record_close_attempt tid h)) ! i) = close_attempts (tasks h ! i) + 1
         \<and> close_attempts (tasks_file (fst (record_close_attempt tid h)) ! i) = close_attempts (tasks h ! i) + 1
         \<and> task_id (tasks_file (fst (record_close_attempt tid h)) ! i) = tid
         \<and> (\<forall>j<length (tasks h). j \<noteq> i \<longrightarrow> tasks (fst (record_close_attempt tid h)) ! j = tasks h ! j))"
proof -
  have a: "attempts_preserved (helper g) (helper (step e g))"
  proof (cases e)
    case (OnTaskSelect sel col7 click_x x width confirm clk)
    then show ?thesis by (simp add: preserved_on_task_select)
  qed (simp_all add: good_step_preserved good_step_refl good_step_select_mode good_step_handle_close
        good_step_save_task good_step_restart helper_unlock_events helper_unlock_steps)
  have b: "attempts_preserved h (run_op op h)"
  proof (cases op)
    case (DeleteTask tid)
    then show ?thesis by (simp add: preserved_delete)
  qed (simp_all add: good_step_preserved good_step_add good_step_start good_step_complete
        good_step_record good_step_load)
  have c: "in_sync (helper (restart g))"
    by (simp add: restart_def init_gui_def load_tasks_def map_from_dict in_sync_def)
  have d: "first_index (\<lambda>t. task_id t = tid) (tasks h) = Some i \<longrightarrow>
         snd (record_close_attempt tid h) = close_attempts (tasks h ! i) + 1
         \<and> close_attempts (tasks (fst (record_close_attempt tid h)) ! i) = close_attempts (tasks h ! i) + 1
         \<and> close_attempts (tasks_file (fst (record_close_attempt tid h)) ! i) = close_attempts (tasks h ! i) + 1
         \<and> task_id (tasks_file (fst (record_close_attempt tid h)) ! i) = tid
         \<and> (\<forall>j<length (tasks h). j \<noteq> i \<longrightarrow> tasks (fst (record_close_attempt tid h)) ! j = tasks h ! j)"
  proof
    assume idx: "first_index (\<lambda>t. task_id t = tid) (tasks h) = Some i"
    from first_index_SomeD [OF idx] have i: "i < length (tasks h)" and ti: "task_id (tasks h ! i) = tid"
      by simp_all
    from i ti show "snd (record_close_attempt tid h) = close_attempts (tasks h ! i) + 1
         \<and> close_attempts (tasks (fst (record_close_attempt tid h)) ! i) = close_attempts (tasks h ! i) + 1
         \<and> close_attempts (tasks_file (fst (record_close_attempt tid h)) ! i) = close_attempts (tasks h ! i) + 1
         \<and> task_id (tasks_file (fst (record_close_attempt tid h)) ! i) = tid
         \<and> (\<forall>j<length (tasks h). j \<noteq> i \<longrightarrow> tasks (fst (record_close_attempt tid h)) ! j = tasks h ! j)"
      by (simp add: record_close_attempt_at [OF idx] save_tasks_def to_dict_fields)
  qed
  from a b c d show ?thesis by blast
qed

text \<open>A close request and a deletion on the example store, and the first recorded attempt.\<close>

theorem attempts_never_decrease_witness:
  "in_sync (helper (step (HandleClose ''1400x750'' False)
       (example_session ''task_1'' (store_of [started_task ''task_1'' 30 0]))))
   \<and> in_sync (run_op (DeleteTask ''task_1'') (store_of [started_task ''task_1'' 30 0]))
   \<and> snd (record_close_attempt ''task_1'' (store_of [started_task ''task_1'' 30 0])) = 1
   \<and> close_attempts (tasks_file (fst (record_close_attempt ''task_1''
         (store_of [started_task ''task_1'' 30 0]))) ! 0) = 1"
proof -
  let ?h = "store_of [started_task ''task_1'' 30 0]"
  let ?g = "example_session ''task_1'' ?h"
  have sync: "in_sync ?h" "in_sync (helper ?g)"
    by (simp_all add: example_session_fields store_of_def in_sync_save)
  have idx: "first_index (\<lambda>t. task_id t = ''task_1'') (tasks ?h) = Some 0"
    by (simp add: store_of_tasks started_task_fields)
  have zero: "close_attempts (tasks ?h ! 0) = 0"
    by (simp add: store_of_tasks started_task_fields)
  note inst = attempts_never_decrease [of ?g "HandleClose ''1400x750'' False" ?h
      "DeleteTask ''task_1''" "''task_1''" 0]
  from inst sync have a: "in_sync (helper (step (HandleClose ''1400x750'' False) ?g))"
    and b: "in_sync (run_op (DeleteTask ''task_1'') ?h)"
    unfolding attempts_preserved_def by blast+
  from inst idx zero have c: "snd (record_close_attempt ''task_1'' ?h) = 1"
    and d: "close_attempts (tasks_file (fst (record_close_attempt ''task_1'' ?h)) ! 0) = 1"
    by simp_all
  from a b c d show ?thesis by blast
qed

end
